theory Spec2Isabelle
  imports Complex_Main "HOL-Library.Word"
begin

unbundle bit_operations_syntax

section \<open>The SDK interface the applications are written against\<close>

text \<open>
  The applications (\<^verbatim>\<open>src/app/*/main.cpp\<close>) are clients of the vendor driver. Two of
  them are modelled here: \<^verbatim>\<open>read_data_bin\<close> (continuous capture) and \<^verbatim>\<open>sample_data\<close>
  (multi-mode sweep). The driver, the channel and the headers \<^verbatim>\<open>sl_lidar.h\<close> and
  \<^verbatim>\<open>sl_lidar_driver.h\<close> are not part of the sources at hand. What the applications use of
  them is modelled as follows:
  \<^item> the macros and constants of the headers are the fields of a parameter record
    \<open>sl_header\<close>; every function of the model takes this record as its first argument
    \<open>K\<close>, and the theorems hold for every value of its fields (the example runs use the
    values of the SDK);
  \<^item> the answers of the driver are the fields of a second parameter record \<open>env\<close>:
    one answer per call site that is executed once, and the answer of the \<open>k\<close>-th call
    for the calls made inside loops;
  \<^item> what the applications do to the outside (driver calls, console output, files, the
    exit status) is the \<open>outcome\<close> of a run.
\<close>

type_synonym sl_result = "32 word"
type_synonym sl_u8 = "8 word"
type_synonym sl_u16 = "16 word"
type_synonym sl_u32 = "32 word"

text \<open>
  Modelled from the spec: the measurement record \<^verbatim>\<open>sl_lidar_response_measurement_node_hq_t\<close>,
  declared in the missing header \<^verbatim>\<open>sl_lidar_cmd.h\<close>. Section 3 of the spec lists its four
  fields (fixed-point angle, fixed-point distance, quality, flag); the field names are
  those the applications read, the widths are those of the SDK (16, 32, 8 and 8 bits).
\<close>

record sl_lidar_response_measurement_node_hq_t =
  angle_z_q14 :: sl_u16
  dist_mm_q2 :: sl_u32
  quality :: sl_u8
  flag :: sl_u8

type_synonym node = sl_lidar_response_measurement_node_hq_t

text \<open>
  Modelled from the spec: \<^verbatim>\<open>LidarScanMode\<close> (missing header \<^verbatim>\<open>sl_lidar_driver.h\<close>): identifier,
  microseconds per sample, maximum range, answer-frame type tag and name (section 3). The
  field \<^verbatim>\<open>id\<close> is called \<open>mode_id\<close> here, \<open>id\<close> being the identity function of HOL. The
  two single-precision fields are only ever printed; they are kept as the rational
  numbers they denote. The name is the text of the \<^verbatim>\<open>char[64]\<close> array up to its
  terminating zero.
\<close>

record LidarScanMode =
  mode_id :: sl_u16
  us_per_sample :: rat
  max_distance :: rat
  ans_type :: sl_u8
  scan_mode :: string

text \<open>
  Modelled from the spec: the health and device-information answers (missing header
  \<^verbatim>\<open>sl_lidar_cmd.h\<close>); section 3 of the spec: a status code plus a payload, and a 16-byte
  serial number, a firmware version packed in one 16-bit field and a hardware revision.
  The serial number array is indexed by position.
\<close>

record sl_lidar_response_device_health_t =
  status :: sl_u8
  error_code :: sl_u16

record sl_lidar_response_device_info_t =
  firmware_version :: sl_u16
  hardware_version :: sl_u8
  serialnum :: "nat \<Rightarrow> sl_u8"

text \<open>
  The macros and constants of the missing headers, as parameters. \<open>SL_IS_OK\<close> and
  \<open>SL_IS_FAIL\<close> are the two tests the applications apply to a result code.
\<close>

record sl_header =
  SL_IS_OK :: "sl_result \<Rightarrow> bool"
  SL_IS_FAIL :: "sl_result \<Rightarrow> bool"
  SL_RESULT_OK :: sl_result
  SL_RESULT_ALREADY_DONE :: sl_result
  SL_RESULT_INVALID_DATA :: sl_result
  SL_RESULT_OPERATION_FAIL :: sl_result
  SL_RESULT_OPERATION_TIMEOUT :: sl_result
  SL_RESULT_OPERATION_STOP :: sl_result
  SL_RESULT_OPERATION_NOT_SUPPORT :: sl_result
  SL_RESULT_FORMAT_NOT_SUPPORT :: sl_result
  SL_RESULT_INSUFFICIENT_MEMORY :: sl_result
  SL_LIDAR_STATUS_ERROR :: sl_u8
  SL_LIDAR_RESP_MEASUREMENT_QUALITY_SHIFT :: nat
  SL_LIDAR_RESP_HQ_FLAG_SYNCBIT :: sl_u8

text \<open>
  Modelled from the spec: the \<^verbatim>\<open>Result<T*>\<close> wrapper returned by the two factory functions
  (missing header \<^verbatim>\<open>sl_lidar_driver.h\<close>): an error code next to the pointer (sections 4.1
  and 6 of the spec: \<^verbatim>\<open>openChannel(path, baud) -> Channel|Error\<close>). A pointer is an
  address, \<open>0\<close> the null pointer. The wrapper converts to \<^verbatim>\<open>true\<close> exactly when its code
  is not a failure.
\<close>

record Result =
  err :: sl_result
  pointer :: nat

definition Result_bool :: "sl_header \<Rightarrow> Result \<Rightarrow> bool" where
  "Result_bool K r = SL_IS_OK K (err r)"

text \<open>
  The answers of the driver and of the clock during one run. \<open>grabScanDataHq E k\<close> is the
  answer of the \<open>k\<close>-th retrieval (counted from \<open>0\<close>): the result code and the nodes the
  driver has put at the front of the buffer; their number is the value the driver leaves
  in \<^verbatim>\<open>count\<close>, which goes in as the capacity of the buffer, 8192. \<open>startScanExpress E k\<close> carries, next to the code, what the call leaves
  in \<^verbatim>\<open>actualMode\<close>. \<open>now E j\<close> is the \<open>j\<close>-th reading of the steady clock, in nanoseconds.
\<close>

record env =
  createSerialPortChannel :: Result
  createLidarDriver :: Result
  connect :: sl_result
  getDeviceInfo :: "sl_result \<times> sl_lidar_response_device_info_t"
  getHealth :: "sl_result \<times> sl_lidar_response_device_health_t"
  setMotorSpeed :: sl_result
  getAllSupportedScanModes :: "sl_result \<times> LidarScanMode list"
  startScan :: sl_result
  startScanExpress :: "nat \<Rightarrow> sl_result \<times> LidarScanMode"
  grabScanDataHq :: "nat \<Rightarrow> sl_result \<times> node list"
  stop :: sl_result
  now :: "nat \<Rightarrow> int"

section \<open>What a run does to the outside\<close>

text \<open>
  Console output and formatted file output are kept as the format string together
  with its arguments; the rendering of the arguments by the formatting library is not
  part of the model.
\<close>

datatype arg = Str string | Num int | Flt rat

datatype ostream = Stdout | Stderr

text \<open>
  A write to a file is a formatted write (format string and arguments) or a block of raw
  bytes. Each application has at most one file open at a time, through the stream
  variable \<^verbatim>\<open>of\<close>, so a write does not name its file. Opening and writing always succeed
  in this model; the applications test neither.
\<close>

datatype written = Formatted string "arg list" | Raw "sl_u8 list"

datatype event =
    Call_createSerialPortChannel string int
  | Call_createLidarDriver
  | Call_connect nat
  | Call_getDeviceInfo
  | Call_getHealth
  | Call_setMotorSpeed
  | Call_getAllSupportedScanModes
  | Call_startScan bool bool
  | Call_startScanExpress bool sl_u16 sl_u32
  | Call_grabScanDataHq nat
  | Call_ascendScanData nat
  | Call_stop
  | Print ostream string "arg list"
  | Println ostream string "arg list"
  | Open_file string
  | Write_file written
  | Close_file

record outcome =
  exit_code :: int
  trace :: "event list"

text \<open>
  The files a run leaves behind are read off its trace: every \<open>Open_file\<close> starts a
  file, which receives the writes up to the next \<open>Close_file\<close>. \<open>artifacts\<close> lists the
  files in the order in which they were opened, each with its name and its writes.
\<close>

fun written_until_close :: "event list \<Rightarrow> written list" where
  "written_until_close [] = []"
| "written_until_close (Write_file w # evs) = w # written_until_close evs"
| "written_until_close (Close_file # evs) = []"
| "written_until_close (ev # evs) = written_until_close evs"

fun artifacts :: "event list \<Rightarrow> (string \<times> written list) list" where
  "artifacts [] = []"
| "artifacts (Open_file name # evs) = (name, written_until_close evs) # artifacts evs"
| "artifacts (ev # evs) = artifacts evs"

section \<open>Functions common to the applications\<close>

text \<open>\<^verbatim>\<open>checkSLAMTECLIDARHealth\<close>: the events, and the value returned.\<close>

definition checkSLAMTECLIDARHealth :: "sl_header \<Rightarrow> env \<Rightarrow> event list \<times> bool" where
  "checkSLAMTECLIDARHealth K E =
     (case getHealth E of (op_result, healthinfo) \<Rightarrow>
        if SL_IS_OK K op_result then
          if status healthinfo = SL_LIDAR_STATUS_ERROR K then
            ([Call_getHealth,
              Println Stdout ''SLAMTEC Lidar health status : {}'' [Num (uint (status healthinfo))],
              Println Stderr
                ''Error, slamtec lidar internal error detected. Please reboot the device to retry.'' []],
             False)
          else
            ([Call_getHealth,
              Println Stdout ''SLAMTEC Lidar health status : {}'' [Num (uint (status healthinfo))]],
             True)
        else
          ([Call_getHealth,
            Println Stderr ''Error, cannot retrieve the lidar health code: {:x}'' [Num (uint op_result)]],
           False))"

text \<open>\<^verbatim>\<open>resultErrorString\<close>: the \<^verbatim>\<open>switch\<close>, its cases in the order of the source.\<close>

definition resultErrorString :: "sl_header \<Rightarrow> sl_result \<Rightarrow> string" where
  "resultErrorString K res =
     (if res = SL_RESULT_OK K then ''No Error''
      else if res = SL_RESULT_ALREADY_DONE K then ''ALREADY_DONE''
      else if res = SL_RESULT_INVALID_DATA K then ''INVALID_DATA''
      else if res = SL_RESULT_OPERATION_FAIL K then ''OPERATION_FAIL''
      else if res = SL_RESULT_OPERATION_TIMEOUT K then ''OPERATION_TIMEOUT''
      else if res = SL_RESULT_OPERATION_STOP K then ''OPERATION_STOP''
      else if res = SL_RESULT_OPERATION_NOT_SUPPORT K then ''OPERATION_NOT_SUPPORT''
      else if res = SL_RESULT_FORMAT_NOT_SUPPORT K then ''FORMAT_NOT_SUPPORT''
      else if res = SL_RESULT_INSUFFICIENT_MEMORY K then ''INSUFFICIENT_MEMORY''
      else ''Other Error'')"

text \<open>
  \<^verbatim>\<open>makeChannel\<close> and \<^verbatim>\<open>makeDriver\<close>: \<^verbatim>\<open>exit(c)\<close> is the value \<open>Inl c\<close>, a returned pointer
  is \<open>Inr p\<close>.
\<close>

definition makeChannel :: "sl_header \<Rightarrow> env \<Rightarrow> string \<Rightarrow> int \<Rightarrow> event list \<times> (int + nat)" where
  "makeChannel K E device baudrate =
     (let channel' = createSerialPortChannel E in
      if \<not> Result_bool K channel' then
        ([Call_createSerialPortChannel device baudrate,
          Println Stderr ''Failed to create channel: {}'' [Str (resultErrorString K (err channel'))]],
         Inl (- 1))
      else if pointer channel' = 0 then
        ([Call_createSerialPortChannel device baudrate,
          Println Stderr ''insufficent memory, exit'' []],
         Inl (- 2))
      else ([Call_createSerialPortChannel device baudrate], Inr (pointer channel')))"

definition makeDriver :: "sl_header \<Rightarrow> env \<Rightarrow> nat \<Rightarrow> event list \<times> (int + nat)" where
  "makeDriver K E channel =
     (let drv' = createLidarDriver E in
      if \<not> Result_bool K drv' then
        ([Call_createLidarDriver,
          Println Stderr ''Failed to create lidar driver: {}'' [Str (resultErrorString K (err drv'))]],
         Inl (- 1))
      else if pointer drv' = 0 then
        ([Call_createLidarDriver, Println Stderr ''insufficent memory, exit'' []], Inl (- 2))
      else
        (let res = connect E in
         if SL_IS_FAIL K res then
           ([Call_createLidarDriver, Call_connect channel,
             Println Stderr ''Failed to connect channel to driver: {}'' [Str (resultErrorString K res)]],
            Inl (- 1))
         else ([Call_createLidarDriver, Call_connect channel], Inr (pointer drv'))))"

text \<open>
  The first part of \<^verbatim>\<open>main\<close>, lines 116 to 143, is the same text in
  \<^verbatim>\<open>read_data_bin/main.cpp\<close> and \<^verbatim>\<open>sample_data/main.cpp\<close>: channel, driver, device
  information and its printing, health check. \<open>Inl c\<close> is the exit status of a run that
  ends there, \<open>Inr ()\<close> a run that goes on.
\<close>

definition print_devinfo :: "sl_lidar_response_device_info_t \<Rightarrow> event list" where
  "print_devinfo devinfo =
     [Print Stdout ''SLAMTEC LIDAR S/N: '' []] @
     map (\<lambda>pos. Print Stdout ''{:02x}'' [Num (uint (serialnum devinfo pos))]) [0..<16] @
     [Print Stdout ''\<newline>Firmware Ver: {}.{:02}\<newline>Hardware Rev: {}\<newline>''
        [Num (uint (drop_bit 8 (firmware_version devinfo))),
         Num (uint (firmware_version devinfo AND 0xFF)),
         Num (uint (hardware_version devinfo))]]"

definition main_prologue :: "sl_header \<Rightarrow> env \<Rightarrow> event list \<times> (int + unit)" where
  "main_prologue K E =
     (case makeChannel K E ''/dev/ttyUSB0'' 115200 of
        (t1, Inl c) \<Rightarrow> (t1, Inl c)
      | (t1, Inr channel) \<Rightarrow>
          (case makeDriver K E channel of
             (t2, Inl c) \<Rightarrow> (t1 @ t2, Inl c)
           | (t2, Inr drv) \<Rightarrow>
               (case getDeviceInfo E of (res, devinfo) \<Rightarrow>
                  if SL_IS_FAIL K res then
                    (t1 @ t2 @
                       [Call_getDeviceInfo,
                        Println Stderr ''Failed to get device info: {}'' [Str (resultErrorString K res)]],
                     Inl (- 1))
                  else
                    (case checkSLAMTECLIDARHealth K E of
                       (t3, healthy) \<Rightarrow>
                         if \<not> healthy then
                           (t1 @ t2 @ [Call_getDeviceInfo] @ print_devinfo devinfo @ t3, Inl (- 1))
                         else
                           (t1 @ t2 @ [Call_getDeviceInfo] @ print_devinfo devinfo @ t3, Inr ())))))"

section \<open>The reorder step of the driver\<close>

text \<open>
  Modelled from the spec: \<^verbatim>\<open>ascendScanData\<close>, a method of the driver, whose code is
  missing. Section 4.4 of the spec: the angular-ascending reorder step, after which the
  angles of the batch are non-decreasing; the batch keeps its samples and their number.
  It is modelled as the stable sort of the batch by the raw angle. The applications
  ignore its result code.
\<close>

definition ascendScanData :: "node list \<Rightarrow> node list" where
  "ascendScanData nodes = sort_key (\<lambda>n. unat (angle_z_q14 n)) nodes"

section \<open>Continuous capture: \<^verbatim>\<open>read_data_bin/main.cpp\<close>\<close>

text \<open>
  Modelled from the spec: the bytes of an object as \<^verbatim>\<open>of.write\<close> copies them from memory.
  Section 6 of the spec: the sample count is an 8-byte unsigned integer, the measurement
  record the angle/distance/quality/flag quadruple in device-native units. The byte
  order is little-endian and the record has no padding (8 bytes), as on the platforms of
  the SDK.
\<close>

fun le_bytes :: "nat \<Rightarrow> nat \<Rightarrow> sl_u8 list" where
  "le_bytes 0 v = []"
| "le_bytes (Suc k) v = of_nat (v mod 256) # le_bytes k (v div 256)"

definition bytes_of_size_t :: "nat \<Rightarrow> sl_u8 list" where
  "bytes_of_size_t count = le_bytes 8 (count mod 2 ^ 64)"

definition bytes_of_node :: "node \<Rightarrow> sl_u8 list" where
  "bytes_of_node n =
     le_bytes 2 (unat (angle_z_q14 n)) @ le_bytes 4 (unat (dist_mm_q2 n)) @ [quality n, flag n]"

definition bytes_of_nodes :: "node list \<Rightarrow> sl_u8 list" where
  "bytes_of_nodes nodes = concat (map bytes_of_node nodes)"

text \<open>
  The loop \<^verbatim>\<open>for (;;)\<close> of \<^verbatim>\<open>main\<close> (lines 152 to 167). \<open>k\<close> counts the retrievals made so
  far, \<open>t\<close> is the trace so far. The loop has no exit but the failing retrieval: a run
  in which no retrieval fails does not return, which is the value \<open>None\<close>. The buffer
  holds 8192 nodes; \<^verbatim>\<open>count\<close> is the number of nodes of the answer.
\<close>

partial_function (option) capture_loop :: "sl_header \<Rightarrow> env \<Rightarrow> nat \<Rightarrow> event list \<Rightarrow> outcome option" where
  "capture_loop K E k t =
     (case grabScanDataHq E k of (op_result, nodes) \<Rightarrow>
        if SL_IS_FAIL K op_result then
          Some \<lparr>exit_code = - 1,
                trace = t @ [Call_grabScanDataHq 8192,
                             Println Stderr ''Failed to read from lidar: {}''
                               [Str (resultErrorString K op_result)],
                             Call_stop,
                             Close_file]\<rparr>
        else
          capture_loop K E (Suc k)
            (t @ [Call_grabScanDataHq 8192,
                  Call_ascendScanData (length nodes),
                  Write_file (Raw (bytes_of_size_t (length nodes))),
                  Write_file (Raw (bytes_of_nodes (ascendScanData nodes)))]))"

definition main_read_data_bin :: "sl_header \<Rightarrow> env \<Rightarrow> outcome option" where
  "main_read_data_bin K E =
     (case main_prologue K E of
        (t, Inl c) \<Rightarrow> Some \<lparr>exit_code = c, trace = t\<rparr>
      | (t, Inr u) \<Rightarrow>
          capture_loop K E 0
            (t @ [Call_setMotorSpeed,
                  Open_file ''data.bin'',
                  Println Stdout ''Reading from lidar...'' [],
                  Call_startScan False True]))"

section \<open>Multi-mode sweep: \<^verbatim>\<open>sample_data/main.cpp\<close>\<close>

text \<open>
  Single precision. The values the sweep computes are \<^verbatim>\<open>angle_z_q14 * 90.f / 16384.f\<close>
  and \<^verbatim>\<open>dist_mm_q2 / 4.0f\<close>: an unsigned integer is converted to \<^verbatim>\<open>float\<close>, multiplied by
  an integer constant, and divided by a power of two. \<open>float_of_nat\<close> is the rounding of
  a natural number to the nearest number with a significand of 24 bits, ties to the even
  significand; it rounds the conversion and the product. The division of such a number
  by \<open>4\<close> or \<open>16384\<close> only changes the exponent and is exact.
\<close>

fun bit_length :: "nat \<Rightarrow> nat" where
  "bit_length n = (if n = 0 then 0 else Suc (bit_length (n div 2)))"

definition float_of_nat :: "nat \<Rightarrow> nat" where
  "float_of_nat n =
     (if n < 2 ^ 24 then n
      else
        (let e = bit_length n - 24;
             q = n div 2 ^ e;
             r = n mod 2 ^ e;
             h = 2 ^ (e - 1)
         in (if h < r \<or> (r = h \<and> odd q) then q + 1 else q) * 2 ^ e))"

definition csv_theta :: "node \<Rightarrow> rat" where
  "csv_theta n = of_nat (float_of_nat (float_of_nat (unat (angle_z_q14 n)) * 90)) / 16384"

definition csv_dist :: "node \<Rightarrow> rat" where
  "csv_dist n = of_nat (float_of_nat (unat (dist_mm_q2 n))) / 4"

text \<open>The row written for one node (lines 197 to 201).\<close>

definition csv_row :: "sl_header \<Rightarrow> node \<Rightarrow> written" where
  "csv_row K n =
     Formatted ''{},{},{},{}\<newline>''
       [Flt (csv_theta n),
        Flt (csv_dist n),
        Num (uint (drop_bit (SL_LIDAR_RESP_MEASUREMENT_QUALITY_SHIFT K) (quality n))),
        Str (if flag n AND SL_LIDAR_RESP_HQ_FLAG_SYNCBIT K \<noteq> 0 then ''S'' else [])]"

text \<open>
  The name of the file of a mode, \<^verbatim>\<open>fmt::format("{}_{}_data.csv", mode.id, mode.scan_mode)\<close>:
  the identifier in decimal digits, then the name.
\<close>

fun dec :: "nat \<Rightarrow> string" where
  "dec n = (if n < 10 then [''0123456789'' ! n] else dec (n div 10) @ [''0123456789'' ! (n mod 10)])"

definition csv_filename :: "LidarScanMode \<Rightarrow> string" where
  "csv_filename mode = dec (unat (mode_id mode)) @ ''_'' @ scan_mode mode @ ''_data.csv''"

text \<open>
  \<^verbatim>\<open>duration_cast<milliseconds>\<close> of a difference of two clock readings: the quotient by
  \<open>10\<^sup>6\<close>, rounded towards zero.
\<close>

definition ms_count :: "int \<Rightarrow> int" where
  "ms_count d = (if d < 0 then - ((- d) div 1000000) else d div 1000000)"

text \<open>The first loop over the modes (lines 153 to 158): the length of the longest name.\<close>

definition max_name_len :: "LidarScanMode list \<Rightarrow> nat" where
  "max_name_len modes =
     foldl (\<lambda>m mode. if m < length (scan_mode mode) then length (scan_mode mode) else m) 0 modes"

text \<open>
  The body of the second loop (lines 163 to 210) for the \<open>k\<close>-th mode of the list: the
  \<open>k\<close>-th calls of \<^verbatim>\<open>startScanExpress\<close> and \<^verbatim>\<open>grabScanDataHq\<close>, and the clock readings
  \<open>3k\<close>, \<open>3k + 1\<close> and \<open>3k + 2\<close>. The file is closed when \<^verbatim>\<open>of\<close> goes out of scope at the end
  of the body.
\<close>

definition sweep_body :: "sl_header \<Rightarrow> env \<Rightarrow> nat \<Rightarrow> nat \<Rightarrow> LidarScanMode \<Rightarrow> event list" where
  "sweep_body K E width k mode =
     (let start = now E (3 * k);
          actualMode = snd (startScanExpress E k);
          mid = now E (3 * k + 1);
          op_result = fst (grabScanDataHq E k);
          nodes = snd (grabScanDataHq E k);
          end' = now E (3 * k + 2)
      in
        [Println Stdout ''{} {:{}s} answer type: {:02x} us/sample: {:f} max dist: {:f} m''
           [Num (uint (mode_id mode)), Str (scan_mode mode), Num (int width),
            Num (uint (ans_type mode)), Flt (us_per_sample mode), Flt (max_distance mode)],
         Open_file (csv_filename mode),
         Write_file (Formatted ''theta,dist,q,flag\<newline>'' []),
         Call_startScanExpress False (mode_id mode) 0,
         Println Stdout ''    Working in mode {} {}''
           [Num (uint (mode_id actualMode)), Str (scan_mode actualMode)],
         Println Stdout ''    Got {} points'' [Num 8192],
         Call_grabScanDataHq 8192] @
        (if SL_IS_OK K op_result then
           Call_ascendScanData (length nodes) # map (\<lambda>n. Write_file (csv_row K n)) (ascendScanData nodes)
         else []) @
        [Println Stdout ''    Total time: {} ms parts are [start: {} ms, read:    {} ms]''
           [Num (ms_count (end' - start)), Num (ms_count (mid - start)), Num (ms_count (end' - mid))],
         Close_file])"

fun sweep :: "sl_header \<Rightarrow> env \<Rightarrow> nat \<Rightarrow> nat \<Rightarrow> LidarScanMode list \<Rightarrow> event list" where
  "sweep K E width k [] = []"
| "sweep K E width k (mode # modes) = sweep_body K E width k mode @ sweep K E width (Suc k) modes"

definition main_sample_data :: "sl_header \<Rightarrow> env \<Rightarrow> outcome" where
  "main_sample_data K E =
     (case main_prologue K E of
        (t, Inl c) \<Rightarrow> \<lparr>exit_code = c, trace = t\<rparr>
      | (t, Inr u) \<Rightarrow>
          (case getAllSupportedScanModes E of (res, modes) \<Rightarrow>
             if SL_IS_FAIL K res then
               \<lparr>exit_code = - 1,
                trace = t @ [Call_setMotorSpeed, Call_getAllSupportedScanModes,
                             Println Stderr ''Failed to get scan modes'' []]\<rparr>
             else
               \<lparr>exit_code = 0,
                trace = t @ [Call_setMotorSpeed, Call_getAllSupportedScanModes] @
                        sweep K E (max_name_len modes) 0 modes @ [Call_stop]\<rparr>))"

section \<open>Observations of a run\<close>

text \<open>
  The properties below speak about three projections of a trace: the calls made to the
  driver, the diagnostics written to the error stream, and the files (\<open>artifacts\<close>,
  above).
\<close>

fun is_call :: "event \<Rightarrow> bool" where
  "is_call (Print s f a) = False"
| "is_call (Println s f a) = False"
| "is_call (Open_file name) = False"
| "is_call (Write_file w) = False"
| "is_call Close_file = False"
| "is_call ev = True"

fun is_report :: "event \<Rightarrow> bool" where
  "is_report (Print s f a) = (s = Stderr)"
| "is_report (Println s f a) = (s = Stderr)"
| "is_report ev = False"

fun is_file_event :: "event \<Rightarrow> bool" where
  "is_file_event (Open_file name) = True"
| "is_file_event (Write_file w) = True"
| "is_file_event Close_file = True"
| "is_file_event ev = False"

definition driver_calls :: "event list \<Rightarrow> event list" where
  "driver_calls t = filter is_call t"

definition reports :: "event list \<Rightarrow> event list" where
  "reports t = filter is_report t"

text \<open>
  A run reaches the health check when the channel and the driver are created, the
  connection is made and the device information is read; it passes the bootstrap when
  the health check lets it go on. \<open>boot_events\<close> is the trace of a run up to the printing
  of the health status.
\<close>

definition health_check_reached :: "sl_header \<Rightarrow> env \<Rightarrow> bool" where
  "health_check_reached K E =
     (Result_bool K (createSerialPortChannel E) \<and> pointer (createSerialPortChannel E) \<noteq> 0 \<and>
      Result_bool K (createLidarDriver E) \<and> pointer (createLidarDriver E) \<noteq> 0 \<and>
      \<not> SL_IS_FAIL K (connect E) \<and>
      \<not> SL_IS_FAIL K (fst (getDeviceInfo E)))"

definition bootstrap_ok :: "sl_header \<Rightarrow> env \<Rightarrow> bool" where
  "bootstrap_ok K E =
     (health_check_reached K E \<and>
      SL_IS_OK K (fst (getHealth E)) \<and> status (snd (getHealth E)) \<noteq> SL_LIDAR_STATUS_ERROR K)"

definition boot_events :: "env \<Rightarrow> event list" where
  "boot_events E =
     [Call_createSerialPortChannel ''/dev/ttyUSB0'' 115200,
      Call_createLidarDriver,
      Call_connect (pointer (createSerialPortChannel E)),
      Call_getDeviceInfo] @
     print_devinfo (snd (getDeviceInfo E)) @
     [Call_getHealth,
      Println Stdout ''SLAMTEC Lidar health status : {}'' [Num (uint (status (snd (getHealth E))))]]"

text \<open>
  Continuous capture: \<open>first_failure K E n\<close> says that the retrievals \<open>0\<close> to \<open>n - 1\<close> do not
  fail and that retrieval \<open>n\<close> fails. The three lists are the events of the run before the
  loop, of a turn of the loop whose retrieval does not fail, and of the turn whose
  retrieval fails.
\<close>

definition first_failure :: "sl_header \<Rightarrow> env \<Rightarrow> nat \<Rightarrow> bool" where
  "first_failure K E n =
     (list_all (\<lambda>k. \<not> SL_IS_FAIL K (fst (grabScanDataHq E k))) [0..<n] \<and>
      SL_IS_FAIL K (fst (grabScanDataHq E n)))"

definition capture_start_events :: "event list" where
  "capture_start_events =
     [Call_setMotorSpeed, Open_file ''data.bin'', Println Stdout ''Reading from lidar...'' [],
      Call_startScan False True]"

definition capture_ok_events :: "env \<Rightarrow> nat \<Rightarrow> event list" where
  "capture_ok_events E k =
     [Call_grabScanDataHq 8192,
      Call_ascendScanData (length (snd (grabScanDataHq E k))),
      Write_file (Raw (bytes_of_size_t (length (snd (grabScanDataHq E k))))),
      Write_file (Raw (bytes_of_nodes (ascendScanData (snd (grabScanDataHq E k)))))]"

definition capture_fail_events :: "sl_header \<Rightarrow> env \<Rightarrow> nat \<Rightarrow> event list" where
  "capture_fail_events K E k =
     [Call_grabScanDataHq 8192,
      Println Stderr ''Failed to read from lidar: {}'' [Str (resultErrorString K (fst (grabScanDataHq E k)))],
      Call_stop,
      Close_file]"

text \<open>
  Multi-mode sweep: the driver calls of the turn of the loop for the \<open>k\<close>-th mode, and
  the file this turn leaves: the header, then the rows if the retrieval succeeded.
\<close>

definition sweep_calls :: "sl_header \<Rightarrow> env \<Rightarrow> nat \<Rightarrow> LidarScanMode \<Rightarrow> event list" where
  "sweep_calls K E k mode =
     [Call_startScanExpress False (mode_id mode) 0, Call_grabScanDataHq 8192] @
     (if SL_IS_OK K (fst (grabScanDataHq E k))
      then [Call_ascendScanData (length (snd (grabScanDataHq E k)))] else [])"

definition mode_artifact :: "sl_header \<Rightarrow> env \<Rightarrow> nat \<Rightarrow> LidarScanMode \<Rightarrow> string \<times> written list" where
  "mode_artifact K E k mode =
     (csv_filename mode,
      Formatted ''theta,dist,q,flag\<newline>'' [] #
      (if SL_IS_OK K (fst (grabScanDataHq E k))
       then map (csv_row K) (ascendScanData (snd (grabScanDataHq E k))) else []))"

fun is_scan_start :: "event \<Rightarrow> bool" where
  "is_scan_start (Call_startScanExpress nonblocking m opts) = True"
| "is_scan_start ev = False"

text \<open>
  Three events of a turn of the sweep: the scan start, the report of the negotiated
  mode, the retrieval.
\<close>

fun is_sweep_step :: "event \<Rightarrow> bool" where
  "is_sweep_step (Call_startScanExpress nonblocking m opts) = True"
| "is_sweep_step (Call_grabScanDataHq c) = True"
| "is_sweep_step (Println s f a) = (f = ''    Working in mode {} {}'')"
| "is_sweep_step ev = False"

definition sweep_steps :: "env \<Rightarrow> nat \<Rightarrow> LidarScanMode \<Rightarrow> event list" where
  "sweep_steps E k mode =
     [Call_startScanExpress False (mode_id mode) 0,
      Println Stdout ''    Working in mode {} {}''
        [Num (uint (mode_id (snd (startScanExpress E k)))), Str (scan_mode (snd (startScanExpress E k)))],
      Call_grabScanDataHq 8192]"

section \<open>Reading the binary file back\<close>

text \<open>
  The format of the continuous capture file, in the words of section 6 of the spec: a
  sequence of blocks, each a sample count (8-byte unsigned integer) followed by that many
  measurement records. \<open>read_blocks\<close> reads a file in this format: it returns the
  records of every block, and \<open>None\<close> when the file ends inside a block. A record is 8
  bytes, a number is read with the least significant byte first.
\<close>

fun le_nat :: "sl_u8 list \<Rightarrow> nat" where
  "le_nat [] = 0"
| "le_nat (b # bs) = unat b + 256 * le_nat bs"

fun records :: "nat \<Rightarrow> sl_u8 list \<Rightarrow> sl_u8 list list" where
  "records 0 bs = []"
| "records (Suc c) bs = take 8 bs # records c (drop 8 bs)"

function read_blocks :: "sl_u8 list \<Rightarrow> sl_u8 list list list option" where
  "read_blocks bs =
     (if bs = [] then Some []
      else if length bs < 8 then None
      else if length (drop 8 bs) < 8 * le_nat (take 8 bs) then None
      else map_option (\<lambda>blocks. records (le_nat (take 8 bs)) (drop 8 bs) # blocks)
             (read_blocks (drop (8 * le_nat (take 8 bs)) (drop 8 bs))))"
  by pat_completeness auto
termination
  by (relation "measure length") auto

fun raw_bytes :: "written \<Rightarrow> sl_u8 list" where
  "raw_bytes (Raw bs) = bs"
| "raw_bytes (Formatted f a) = []"

definition file_bytes :: "written list \<Rightarrow> sl_u8 list" where
  "file_bytes ws = concat (map raw_bytes ws)"

section \<open>The failure classes of the bootstrap\<close>

text \<open>
  The first fatal condition of a run of the sweep, in the three classes of the exit code
  convention (section 6 of the spec): the channel cannot be created; an allocation fails
  (a factory answers with a null pointer); or an operation of a bootstrap stage fails
  (driver creation, connect, information query, health query or unhealthy device,
  capability query).
\<close>

datatype failure_class = Channel_creation | Allocation | Operational

definition failure_of :: "sl_header \<Rightarrow> env \<Rightarrow> failure_class option" where
  "failure_of K E =
     (if \<not> Result_bool K (createSerialPortChannel E) then Some Channel_creation
      else if pointer (createSerialPortChannel E) = 0 then Some Allocation
      else if \<not> Result_bool K (createLidarDriver E) then Some Operational
      else if pointer (createLidarDriver E) = 0 then Some Allocation
      else if SL_IS_FAIL K (connect E) then Some Operational
      else if SL_IS_FAIL K (fst (getDeviceInfo E)) then Some Operational
      else if \<not> SL_IS_OK K (fst (getHealth E)) then Some Operational
      else if status (snd (getHealth E)) = SL_LIDAR_STATUS_ERROR K then Some Operational
      else if SL_IS_FAIL K (fst (getAllSupportedScanModes E)) then Some Operational
      else None)"

fun exit_code_of :: "failure_class option \<Rightarrow> int" where
  "exit_code_of None = 0"
| "exit_code_of (Some Allocation) = - 2"
| "exit_code_of (Some Channel_creation) = - 1"
| "exit_code_of (Some Operational) = - 1"

section \<open>Reading a decimal numeral\<close>

text \<open>
  The value of a string of decimal digits, most significant digit first, and the test
  that a string is a decimal numeral in its shortest form: digits only, at least one,
  and no leading zero but for the numeral \<^verbatim>\<open>0\<close> itself.
\<close>

definition is_digit :: "char \<Rightarrow> bool" where
  "is_digit c = (48 \<le> (of_char c :: nat) \<and> (of_char c :: nat) \<le> 57)"

definition decimal_value :: "string \<Rightarrow> nat" where
  "decimal_value s = foldl (\<lambda>v c. 10 * v + (of_char c - 48)) 0 s"

definition is_decimal_numeral :: "string \<Rightarrow> bool" where
  "is_decimal_numeral s = (s \<noteq> [] \<and> list_all is_digit s \<and> (s = ''0'' \<or> hd s \<noteq> CHR ''0''))"

section \<open>Example runs\<close>

text \<open>
  The values of the SDK's headers, and a device with two scan modes whose first
  retrieval returns two nodes and whose later retrievals time out. They serve as
  concrete inputs only.
\<close>

definition sdk_header :: sl_header where
  "sdk_header =
     \<lparr>SL_IS_OK = (\<lambda>x. x AND 0x80000000 = 0),
      SL_IS_FAIL = (\<lambda>x. x AND 0x80000000 \<noteq> 0),
      SL_RESULT_OK = 0,
      SL_RESULT_ALREADY_DONE = 0x20,
      SL_RESULT_INVALID_DATA = 0x80008000,
      SL_RESULT_OPERATION_FAIL = 0x80008001,
      SL_RESULT_OPERATION_TIMEOUT = 0x80008002,
      SL_RESULT_OPERATION_STOP = 0x80008003,
      SL_RESULT_OPERATION_NOT_SUPPORT = 0x80008004,
      SL_RESULT_FORMAT_NOT_SUPPORT = 0x80008005,
      SL_RESULT_INSUFFICIENT_MEMORY = 0x80008006,
      SL_LIDAR_STATUS_ERROR = 2,
      SL_LIDAR_RESP_MEASUREMENT_QUALITY_SHIFT = 2,
      SL_LIDAR_RESP_HQ_FLAG_SYNCBIT = 1\<rparr>"

definition node_a :: node where
  "node_a = \<lparr>angle_z_q14 = 16384, dist_mm_q2 = 40, quality = 188, flag = 0\<rparr>"

definition node_b :: node where
  "node_b = \<lparr>angle_z_q14 = 182, dist_mm_q2 = 33554433, quality = 60, flag = 1\<rparr>"

definition mode_standard :: LidarScanMode where
  "mode_standard =
     \<lparr>mode_id = 0, us_per_sample = 508, max_distance = 12, ans_type = 0x81, scan_mode = ''Standard''\<rparr>"

definition mode_boost :: LidarScanMode where
  "mode_boost =
     \<lparr>mode_id = 2, us_per_sample = 127, max_distance = 12, ans_type = 0x84, scan_mode = ''Boost''\<rparr>"

definition env_ok :: env where
  "env_ok =
     \<lparr>createSerialPortChannel = \<lparr>err = 0, pointer = 1\<rparr>,
      createLidarDriver = \<lparr>err = 0, pointer = 2\<rparr>,
      connect = 0,
      getDeviceInfo = (0, \<lparr>firmware_version = 0x0118, hardware_version = 5, serialnum = (\<lambda>pos. 0)\<rparr>),
      getHealth = (0, \<lparr>status = 1, error_code = 0\<rparr>),
      setMotorSpeed = 0,
      getAllSupportedScanModes = (0, [mode_standard, mode_boost]),
      startScan = 0,
      startScanExpress = (\<lambda>k. (0, if k = 0 then mode_standard else mode_boost)),
      grabScanDataHq = (\<lambda>k. if k = 0 then (0, [node_a, node_b]) else (0x80008002, [])),
      stop = 0,
      now = (\<lambda>j. int j * 2500000)\<rparr>"

definition env_first_retrieval_fails :: env where
  "env_first_retrieval_fails =
     env_ok\<lparr>grabScanDataHq := (\<lambda>k. if k = 0 then (0x80008002, []) else (0, [node_a, node_b]))\<rparr>"

text \<open>
  Variants of \<open>env_ok\<close>: the motor start fails; the device reports the status ERROR; the
  channel cannot be created; the channel factory returns a null pointer; the connection
  times out.
\<close>

definition env_motor_start_fails :: env where
  "env_motor_start_fails = env_ok\<lparr>setMotorSpeed := 0x80008001\<rparr>"

definition env_unhealthy :: env where
  "env_unhealthy = env_ok\<lparr>getHealth := (0, \<lparr>status = 2, error_code = 0\<rparr>)\<rparr>"

definition env_no_channel :: env where
  "env_no_channel = env_ok\<lparr>createSerialPortChannel := \<lparr>err = 0x80008001, pointer = 0\<rparr>\<rparr>"

definition env_no_memory :: env where
  "env_no_memory = env_ok\<lparr>createSerialPortChannel := \<lparr>err = 0, pointer = 0\<rparr>\<rparr>"

definition env_no_connection :: env where
  "env_no_connection = env_ok\<lparr>connect := 0x80008002\<rparr>"

section \<open>Lemmas on the model\<close>

subsection \<open>The bootstrap\<close>

lemma main_prologue_ok:
  "bootstrap_ok K E \<Longrightarrow> main_prologue K E = (boot_events E, Inr ())"
  by (auto simp add: bootstrap_ok_def health_check_reached_def main_prologue_def makeChannel_def makeDriver_def
      checkSLAMTECLIDARHealth_def boot_events_def Let_def split: prod.splits)

lemma main_prologue_ok_iff:
  "(\<exists>t. main_prologue K E = (t, Inr ())) = bootstrap_ok K E"
  by (auto simp add: bootstrap_ok_def health_check_reached_def main_prologue_def makeChannel_def makeDriver_def
      checkSLAMTECLIDARHealth_def boot_events_def Let_def split: prod.splits if_splits)

lemma main_prologue_unhealthy:
  assumes "health_check_reached K E" and "SL_IS_OK K (fst (getHealth E))"
    and "status (snd (getHealth E)) = SL_LIDAR_STATUS_ERROR K"
  shows "main_prologue K E =
           (boot_events E @
            [Println Stderr
               ''Error, slamtec lidar internal error detected. Please reboot the device to retry.'' []],
            Inl (- 1))"
  using assms
  by (auto simp add: health_check_reached_def main_prologue_def makeChannel_def makeDriver_def
      checkSLAMTECLIDARHealth_def boot_events_def Let_def split: prod.splits)

lemma main_prologue_same_answers:
  assumes "createSerialPortChannel E' = createSerialPortChannel E"
    and "createLidarDriver E' = createLidarDriver E"
    and "connect E' = connect E"
    and "getDeviceInfo E' = getDeviceInfo E"
    and "getHealth E' = getHealth E"
  shows "main_prologue K E' = main_prologue K E"
proof -
  have c: "makeChannel K E' d b = makeChannel K E d b" for d b
    by (simp add: makeChannel_def Let_def assms)
  have d: "makeDriver K E' ch = makeDriver K E ch" for ch
    by (simp add: makeDriver_def Let_def assms)
  have h: "checkSLAMTECLIDARHealth K E' = checkSLAMTECLIDARHealth K E"
    by (simp add: checkSLAMTECLIDARHealth_def assms)
  show ?thesis
    by (simp only: main_prologue_def c d h assms)
qed

subsection \<open>Projections of a trace\<close>

lemma driver_calls_simps:
  "driver_calls [] = []"
  "driver_calls (ev # t) = (if is_call ev then ev # driver_calls t else driver_calls t)"
  by (simp_all add: driver_calls_def)

lemma reports_simps:
  "reports [] = []"
  "reports (ev # t) = (if is_report ev then ev # reports t else reports t)"
  by (simp_all add: reports_def)

lemma driver_calls_append: "driver_calls (s @ t) = driver_calls s @ driver_calls t"
  by (simp add: driver_calls_def)

lemma reports_append: "reports (s @ t) = reports s @ reports t"
  by (simp add: reports_def)

lemma driver_calls_print_devinfo: "driver_calls (print_devinfo d) = []"
  by (simp add: driver_calls_def print_devinfo_def)

lemma reports_print_devinfo: "reports (print_devinfo d) = []"
  by (simp add: reports_def print_devinfo_def)

lemma driver_calls_boot_events:
  "driver_calls (boot_events E) =
     [Call_createSerialPortChannel ''/dev/ttyUSB0'' 115200, Call_createLidarDriver,
      Call_connect (pointer (createSerialPortChannel E)), Call_getDeviceInfo, Call_getHealth]"
  using driver_calls_print_devinfo [of "snd (getDeviceInfo E)"]
  by (simp add: boot_events_def driver_calls_def)

lemma reports_boot_events: "reports (boot_events E) = []"
  using reports_print_devinfo [of "snd (getDeviceInfo E)"]
  by (simp add: boot_events_def reports_def)

lemma scan_starts_boot_events: "filter is_scan_start (boot_events E) = []"
  by (simp add: boot_events_def print_devinfo_def)

lemma sweep_steps_boot_events: "filter is_sweep_step (boot_events E) = []"
  by (simp add: boot_events_def print_devinfo_def)

lemma artifacts_quiet: "list_all (\<lambda>ev. \<not> is_file_event ev) t \<Longrightarrow> artifacts (t @ r) = artifacts r"
proof (induction t)
  case Nil
  then show ?case by simp
next
  case (Cons ev t)
  then show ?case by (cases ev) simp_all
qed

lemma written_until_close_row_writes:
  "written_until_close (map (\<lambda>n. Write_file (f n)) ns @ r) = map f ns @ written_until_close r"
  by (induction ns) simp_all

lemma artifacts_row_writes:
  "artifacts (map (\<lambda>n. Write_file (f n)) ns @ r) = artifacts r"
  by (induction ns) simp_all

lemma quiet_print_devinfo: "list_all (\<lambda>ev. \<not> is_file_event ev) (print_devinfo d)"
  by (simp add: print_devinfo_def list_all_iff)

lemma quiet_boot_events: "list_all (\<lambda>ev. \<not> is_file_event ev) (boot_events E)"
  by (simp add: boot_events_def quiet_print_devinfo)

lemma quiet_main_prologue: "list_all (\<lambda>ev. \<not> is_file_event ev) (fst (main_prologue K E))"
  by (simp add: main_prologue_def makeChannel_def makeDriver_def checkSLAMTECLIDARHealth_def Let_def
      quiet_print_devinfo split: prod.splits)

subsection \<open>The reorder step and the conversions\<close>

lemma sorted_ascendScanData:
  "sorted (map (\<lambda>nd. unat (angle_z_q14 nd)) (ascendScanData nodes))"
  by (simp add: ascendScanData_def)

lemma length_ascendScanData: "length (ascendScanData nodes) = length nodes"
  by (simp add: ascendScanData_def)

lemma set_ascendScanData: "set (ascendScanData nodes) = set nodes"
  by (simp add: ascendScanData_def)

lemma float_of_nat_small: "n \<le> 2 ^ 24 \<Longrightarrow> float_of_nat n = n"
proof (cases "n < 2 ^ 24")
  case True
  then show ?thesis by (simp add: float_of_nat_def)
next
  case False
  assume "n \<le> 2 ^ 24"
  with False have "n = 2 ^ 24" by simp
  then show ?thesis by (simp add: float_of_nat_def Let_def)
qed

lemma csv_theta_exact: "csv_theta n = of_nat (unat (angle_z_q14 n)) * 90 / 16384"
proof -
  have "unat (angle_z_q14 n) < 2 ^ 16"
    using unsigned_less [of "angle_z_q14 n"] by simp
  then have a: "unat (angle_z_q14 n) \<le> 2 ^ 24" and b: "unat (angle_z_q14 n) * 90 \<le> 2 ^ 24"
    by simp_all
  show ?thesis
    by (simp add: csv_theta_def float_of_nat_small [OF a] float_of_nat_small [OF b])
qed

lemma csv_dist_exact:
  "unat (dist_mm_q2 n) \<le> 2 ^ 24 \<Longrightarrow> csv_dist n = of_nat (unat (dist_mm_q2 n)) / 4"
  by (simp add: csv_dist_def float_of_nat_small)

lemma csv_row_conversion:
  "csv_row K nd =
     Formatted ''{},{},{},{}\<newline>''
       [Flt (of_nat (unat (angle_z_q14 nd)) * 90 / 16384),
        Flt (if unat (dist_mm_q2 nd) \<le> 2 ^ 24 then of_nat (unat (dist_mm_q2 nd)) / 4
             else of_nat (float_of_nat (unat (dist_mm_q2 nd))) / 4),
        Num (uint (drop_bit (SL_LIDAR_RESP_MEASUREMENT_QUALITY_SHIFT K) (quality nd))),
        Str (if flag nd AND SL_LIDAR_RESP_HQ_FLAG_SYNCBIT K \<noteq> 0 then ''S'' else [])]"
proof (cases "unat (dist_mm_q2 nd) \<le> 2 ^ 24")
  case True
  then show ?thesis
    by (simp only: csv_row_def csv_theta_exact csv_dist_exact [OF True] if_True)
next
  case False
  then show ?thesis
    by (simp only: csv_row_def csv_theta_exact csv_dist_def if_False)
qed

lemma sorted_csv_theta_ascendScanData: "sorted (map csv_theta (ascendScanData nodes))"
proof -
  have mono: "csv_theta x \<le> csv_theta y" if "unat (angle_z_q14 x) \<le> unat (angle_z_q14 y)" for x y
  proof -
    from that have "(of_nat (unat (angle_z_q14 x)) :: rat) \<le> of_nat (unat (angle_z_q14 y))"
      by (simp only: of_nat_le_iff)
    then have "(of_nat (unat (angle_z_q14 x)) :: rat) * 90 / 16384 \<le>
               of_nat (unat (angle_z_q14 y)) * 90 / 16384"
      by (intro divide_right_mono mult_right_mono) simp_all
    then show ?thesis by (simp only: csv_theta_exact)
  qed
  have "sorted (map (\<lambda>nd. unat (angle_z_q14 nd)) xs) \<Longrightarrow> sorted (map csv_theta xs)" for xs
    by (induction xs) (auto simp add: mono)
  then show ?thesis using sorted_ascendScanData by blast
qed

subsection \<open>Bytes and blocks\<close>

lemma length_le_bytes: "length (le_bytes k v) = k"
  by (induction k arbitrary: v) simp_all

lemma le_nat_le_bytes: "le_nat (le_bytes k v) = v mod 256 ^ k"
proof (induction k arbitrary: v)
  case 0
  then show ?case by simp
next
  case (Suc k)
  have "unat (of_nat (v mod 256) :: sl_u8) = v mod 256"
    by (simp add: unat_of_nat)
  then have "le_nat (le_bytes (Suc k) v) = v mod 256 + 256 * ((v div 256) mod 256 ^ k)"
    by (simp add: Suc.IH)
  also have "\<dots> = v mod 256 ^ Suc k"
    by (simp add: mod_mult2_eq)
  finally show ?case .
qed

lemma length_bytes_of_size_t: "length (bytes_of_size_t c) = 8"
  by (simp add: bytes_of_size_t_def length_le_bytes)

lemma le_nat_bytes_of_size_t: "c < 2 ^ 64 \<Longrightarrow> le_nat (bytes_of_size_t c) = c"
  by (simp add: bytes_of_size_t_def le_nat_le_bytes)

lemma length_bytes_of_node: "length (bytes_of_node nd) = 8"
  by (simp add: bytes_of_node_def length_le_bytes)

lemma length_bytes_of_nodes: "length (bytes_of_nodes nodes) = 8 * length nodes"
  by (induction nodes) (simp_all add: bytes_of_nodes_def length_bytes_of_node)

lemma raw_fields_of_bytes_of_node:
  "le_nat (take 2 (bytes_of_node nd)) = unat (angle_z_q14 nd)"
  "le_nat (take 4 (drop 2 (bytes_of_node nd))) = unat (dist_mm_q2 nd)"
  "drop 6 (bytes_of_node nd) = [quality nd, flag nd]"
proof -
  have a: "unat (angle_z_q14 nd) < 256 ^ 2"
    using unsigned_less [of "angle_z_q14 nd"] by simp
  have d: "unat (dist_mm_q2 nd) < 256 ^ 4"
    using unsigned_less [of "dist_mm_q2 nd"] by simp
  show "le_nat (take 2 (bytes_of_node nd)) = unat (angle_z_q14 nd)"
    using a by (simp add: bytes_of_node_def length_le_bytes le_nat_le_bytes)
  show "le_nat (take 4 (drop 2 (bytes_of_node nd))) = unat (dist_mm_q2 nd)"
    using d by (simp add: bytes_of_node_def length_le_bytes le_nat_le_bytes)
  show "drop 6 (bytes_of_node nd) = [quality nd, flag nd]"
    by (simp add: bytes_of_node_def length_le_bytes)
qed

lemma records_bytes_of_nodes:
  "records (length nodes) (bytes_of_nodes nodes @ rest) = map bytes_of_node nodes"
  by (induction nodes) (simp_all add: bytes_of_nodes_def length_bytes_of_node)

lemma drop_bytes_of_nodes: "drop (8 * length nodes) (bytes_of_nodes nodes @ rest) = rest"
  by (simp add: length_bytes_of_nodes)

declare read_blocks.simps [simp del]

lemma read_blocks_Nil: "read_blocks [] = Some []"
  by (subst read_blocks.simps) simp

lemma read_blocks_block:
  assumes "length nodes < 2 ^ 64"
  shows "read_blocks (bytes_of_size_t (length nodes) @ bytes_of_nodes nodes @ rest) =
           map_option (\<lambda>blocks. map bytes_of_node nodes # blocks) (read_blocks rest)"
proof -
  let ?bs = "bytes_of_size_t (length nodes) @ bytes_of_nodes nodes @ rest"
  have ne: "?bs \<noteq> []"
    using length_bytes_of_size_t [of "length nodes"] by auto
  have len: "\<not> length ?bs < 8"
    by (simp add: length_bytes_of_size_t)
  have tk: "take 8 ?bs = bytes_of_size_t (length nodes)"
    by (simp add: length_bytes_of_size_t)
  have dr: "drop 8 ?bs = bytes_of_nodes nodes @ rest"
    by (simp add: length_bytes_of_size_t)
  have cnt: "le_nat (bytes_of_size_t (length nodes)) = length nodes"
    using assms by (rule le_nat_bytes_of_size_t)
  have enough: "\<not> length (bytes_of_nodes nodes @ rest) < 8 * length nodes"
    by (simp add: length_bytes_of_nodes)
  show ?thesis
    by (subst read_blocks.simps)
      (simp only: ne len tk dr cnt enough if_False records_bytes_of_nodes drop_bytes_of_nodes)
qed

lemma read_blocks_blocks:
  assumes "\<forall>nodes \<in> set batches. length nodes < 2 ^ 64"
  shows "read_blocks (concat (map (\<lambda>nodes. bytes_of_size_t (length nodes) @ bytes_of_nodes nodes) batches)) =
           Some (map (map bytes_of_node) batches)"
  using assms
proof (induction batches)
  case Nil
  then show ?case by (simp add: read_blocks_Nil)
next
  case (Cons nodes batches)
  then have l: "length nodes < 2 ^ 64" and
    ih: "read_blocks (concat (map (\<lambda>nodes. bytes_of_size_t (length nodes) @ bytes_of_nodes nodes) batches)) =
           Some (map (map bytes_of_node) batches)"
    by simp_all
  show ?case
    using read_blocks_block [OF l,
        of "concat (map (\<lambda>nodes. bytes_of_size_t (length nodes) @ bytes_of_nodes nodes) batches)"]
    by (simp add: ih)
qed

lemma file_bytes_blocks:
  "file_bytes (concat (map (\<lambda>k. [Raw (bytes_of_size_t (c k)), Raw (bytes_of_nodes (b k))]) ks)) =
     concat (map (\<lambda>k. bytes_of_size_t (c k) @ bytes_of_nodes (b k)) ks)"
  by (induction ks) (simp_all add: file_bytes_def)

subsection \<open>Continuous capture\<close>

text \<open>
  The loop returns exactly when some retrieval fails: it returns at the first failing
  retrieval, and it does not return when there is none.
\<close>

lemma capture_loop_fail:
  "SL_IS_FAIL K (fst (grabScanDataHq E k)) \<Longrightarrow>
   capture_loop K E k t = Some \<lparr>exit_code = - 1, trace = t @ capture_fail_events K E k\<rparr>"
  by (subst capture_loop.simps) (auto simp add: capture_fail_events_def split: prod.splits)

lemma capture_loop_ok:
  "\<not> SL_IS_FAIL K (fst (grabScanDataHq E k)) \<Longrightarrow>
   capture_loop K E k t = capture_loop K E (Suc k) (t @ capture_ok_events E k)"
  by (subst capture_loop.simps) (auto simp add: capture_ok_events_def split: prod.splits)

lemma capture_loop_returns:
  "(\<forall>i<n. \<not> SL_IS_FAIL K (fst (grabScanDataHq E (k + i)))) \<Longrightarrow>
   SL_IS_FAIL K (fst (grabScanDataHq E (k + n))) \<Longrightarrow>
   capture_loop K E k t =
     Some \<lparr>exit_code = - 1,
           trace = t @ concat (map (capture_ok_events E) [k..<k + n]) @ capture_fail_events K E (k + n)\<rparr>"
proof (induction n arbitrary: k t)
  case 0
  then show ?case by (simp add: capture_loop_fail)
next
  case (Suc n)
  from Suc.prems(1) have ok: "\<not> SL_IS_FAIL K (fst (grabScanDataHq E k))"
    by (metis add.right_neutral zero_less_Suc)
  from Suc.prems(1) have rest: "\<forall>i<n. \<not> SL_IS_FAIL K (fst (grabScanDataHq E (Suc k + i)))"
    by (metis Suc_less_eq add_Suc_shift)
  from Suc.prems(2) have fail: "SL_IS_FAIL K (fst (grabScanDataHq E (Suc k + n)))"
    by simp
  have "capture_loop K E k t = capture_loop K E (Suc k) (t @ capture_ok_events E k)"
    using ok by (rule capture_loop_ok)
  also have "\<dots> = Some \<lparr>exit_code = - 1,
      trace = (t @ capture_ok_events E k) @ concat (map (capture_ok_events E) [Suc k..<Suc k + n]) @
              capture_fail_events K E (Suc k + n)\<rparr>"
    using rest fail by (rule Suc.IH)
  also have "(t @ capture_ok_events E k) @ concat (map (capture_ok_events E) [Suc k..<Suc k + n]) @
              capture_fail_events K E (Suc k + n) =
             t @ concat (map (capture_ok_events E) [k..<k + Suc n]) @ capture_fail_events K E (k + Suc n)"
  proof -
    have "[k..<k + Suc n] = k # [Suc k..<Suc k + n]"
      by (simp add: upt_conv_Cons)
    then show ?thesis by simp
  qed
  finally show ?case .
qed

lemma capture_loop_never_returns:
  assumes "\<And>i. \<not> SL_IS_FAIL K (fst (grabScanDataHq E i))"
  shows "capture_loop K E k t = None"
proof (cases "capture_loop K E k t")
  case None
  then show ?thesis .
next
  case (Some y)
  then have "\<exists>i. SL_IS_FAIL K (fst (grabScanDataHq E i))"
  proof (induction rule: capture_loop.raw_induct [rotated 1, consumes 1, case_names step])
    case (step loop K E k t y)
    show ?case
    proof (cases "SL_IS_FAIL K (fst (grabScanDataHq E k))")
      case True
      then show ?thesis by blast
    next
      case False
      with step.hyps obtain t' where "loop K E (Suc k) t' = Some y"
        by (auto split: prod.splits)
      then show ?thesis by (rule step.IH)
    qed
  qed
  with assms show ?thesis by blast
qed

lemma capture_loop_same_answers_Some:
  "capture_loop K E k t = Some y \<Longrightarrow>
   (\<forall>E'. grabScanDataHq E' = grabScanDataHq E \<longrightarrow> capture_loop K E' k t = Some y)"
proof (induction rule: capture_loop.raw_induct [rotated 1, consumes 1, case_names step])
  case (step loop K E k t y)
  show ?case
  proof (intro allI impI)
    fix E' :: env
    assume eq: "grabScanDataHq E' = grabScanDataHq E"
    obtain op_result nodes where g: "grabScanDataHq E k = (op_result, nodes)"
      by (cases "grabScanDataHq E k")
    show "capture_loop K E' k t = Some y"
    proof (cases "SL_IS_FAIL K op_result")
      case True
      with step.hyps g show ?thesis
        by (subst capture_loop.simps) (simp add: eq)
    next
      case False
      with step.hyps g have "loop K E (Suc k)
          (t @ [Call_grabScanDataHq 8192, Call_ascendScanData (length nodes),
                Write_file (Raw (bytes_of_size_t (length nodes))),
                Write_file (Raw (bytes_of_nodes (ascendScanData nodes)))]) = Some y"
        by simp
      then have "capture_loop K E' (Suc k)
          (t @ [Call_grabScanDataHq 8192, Call_ascendScanData (length nodes),
                Write_file (Raw (bytes_of_size_t (length nodes))),
                Write_file (Raw (bytes_of_nodes (ascendScanData nodes)))]) = Some y"
        using step.IH eq by blast
      with False g show ?thesis
        by (subst capture_loop.simps) (simp add: eq)
    qed
  qed
qed

lemma capture_loop_same_answers:
  assumes "grabScanDataHq E' = grabScanDataHq E"
  shows "capture_loop K E' k t = capture_loop K E k t"
proof (cases "capture_loop K E k t")
  case (Some y)
  then show ?thesis
    using capture_loop_same_answers_Some [of K E k t y] assms by simp
next
  case None
  show ?thesis
  proof (cases "capture_loop K E' k t")
    case None
    with \<open>capture_loop K E k t = None\<close> show ?thesis by simp
  next
    case (Some y)
    then have "capture_loop K E k t = Some y"
      using capture_loop_same_answers_Some [of K E' k t y] assms by simp
    with None show ?thesis by simp
  qed
qed

lemma main_read_data_bin_returns:
  assumes "bootstrap_ok K E" and "first_failure K E n"
  shows "main_read_data_bin K E =
           Some \<lparr>exit_code = - 1,
                 trace = boot_events E @ capture_start_events @
                         concat (map (capture_ok_events E) [0..<n]) @ capture_fail_events K E n\<rparr>"
proof -
  from assms(2) have ok: "\<forall>i<n. \<not> SL_IS_FAIL K (fst (grabScanDataHq E (0 + i)))"
    and fail: "SL_IS_FAIL K (fst (grabScanDataHq E (0 + n)))"
    by (simp_all add: first_failure_def list_all_iff)
  show ?thesis
    using capture_loop_returns [OF ok fail, of "boot_events E @ capture_start_events"] assms(1)
    by (simp add: main_read_data_bin_def main_prologue_ok capture_start_events_def)
qed

lemma main_read_data_bin_enters_loop:
  "bootstrap_ok K E \<Longrightarrow>
   main_read_data_bin K E = capture_loop K E 0 (boot_events E @ capture_start_events)"
  by (simp add: main_read_data_bin_def main_prologue_ok capture_start_events_def)

lemma main_read_data_bin_same_answers:
  assumes "createSerialPortChannel E' = createSerialPortChannel E"
    and "createLidarDriver E' = createLidarDriver E"
    and "connect E' = connect E"
    and "getDeviceInfo E' = getDeviceInfo E"
    and "getHealth E' = getHealth E"
    and "grabScanDataHq E' = grabScanDataHq E"
  shows "main_read_data_bin K E' = main_read_data_bin K E"
proof -
  have p: "main_prologue K E' = main_prologue K E"
    using assms(1-5) by (rule main_prologue_same_answers)
  have l: "capture_loop K E' k t = capture_loop K E k t" for k t
    using assms(6) by (rule capture_loop_same_answers)
  show ?thesis
    by (simp only: main_read_data_bin_def p l)
qed

lemma artifacts_capture_ok_events:
  "written_until_close (concat (map (capture_ok_events E) ks) @ r) =
     concat (map (\<lambda>k. [Raw (bytes_of_size_t (length (snd (grabScanDataHq E k)))),
                        Raw (bytes_of_nodes (ascendScanData (snd (grabScanDataHq E k))))]) ks) @
     written_until_close r"
  by (induction ks) (simp_all add: capture_ok_events_def)

lemma no_open_capture_ok_events: "artifacts (concat (map (capture_ok_events E) ks) @ r) = artifacts r"
  by (induction ks) (simp_all add: capture_ok_events_def)

lemma artifacts_main_read_data_bin:
  assumes "bootstrap_ok K E" and "first_failure K E n"
  shows "\<exists>out. main_read_data_bin K E = Some out \<and>
           artifacts (trace out) =
             [(''data.bin'',
               concat (map (\<lambda>k. [Raw (bytes_of_size_t (length (snd (grabScanDataHq E k)))),
                                  Raw (bytes_of_nodes (ascendScanData (snd (grabScanDataHq E k))))])
                         [0..<n]))]"
  by (simp add: main_read_data_bin_returns [OF assms] artifacts_quiet [OF quiet_boot_events]
      capture_start_events_def artifacts_capture_ok_events no_open_capture_ok_events
      capture_fail_events_def)

subsection \<open>Multi-mode sweep\<close>

lemma driver_calls_sweep_body: "driver_calls (sweep_body K E w k mode) = sweep_calls K E k mode"
  by (simp add: sweep_body_def driver_calls_def sweep_calls_def Let_def filter_map comp_def)

lemma reports_sweep_body: "reports (sweep_body K E w k mode) = []"
  by (simp add: sweep_body_def reports_def Let_def filter_map comp_def)

lemma driver_calls_sweep:
  "driver_calls (sweep K E w k modes) = concat (map (\<lambda>(i, mode). sweep_calls K E i mode) (enumerate k modes))"
  by (induction modes arbitrary: k)
    (simp_all add: driver_calls_def driver_calls_sweep_body [unfolded driver_calls_def])

lemma reports_sweep: "reports (sweep K E w k modes) = []"
  by (induction modes arbitrary: k)
    (simp_all add: reports_def reports_sweep_body [unfolded reports_def])

lemma scan_starts_sweep_body:
  "filter is_scan_start (sweep_body K E w k mode) = [Call_startScanExpress False (mode_id mode) 0]"
  by (simp add: sweep_body_def Let_def filter_map comp_def)

lemma scan_starts_sweep:
  "filter is_scan_start (sweep K E w k modes) =
     map (\<lambda>mode. Call_startScanExpress False (mode_id mode) 0) modes"
  by (induction modes arbitrary: k) (simp_all add: scan_starts_sweep_body)

lemma sweep_steps_sweep_body: "filter is_sweep_step (sweep_body K E w k mode) = sweep_steps E k mode"
  by (simp add: sweep_body_def sweep_steps_def Let_def filter_map comp_def)

lemma sweep_steps_sweep:
  "filter is_sweep_step (sweep K E w k modes) =
     concat (map (\<lambda>(i, mode). sweep_steps E i mode) (enumerate k modes))"
  by (induction modes arbitrary: k) (simp_all add: sweep_steps_sweep_body)

lemma sweep_body_before_scan_start:
  "takeWhile (\<lambda>ev. \<not> is_scan_start ev) (sweep_body K E w k mode) =
     [Println Stdout ''{} {:{}s} answer type: {:02x} us/sample: {:f} max dist: {:f} m''
        [Num (uint (mode_id mode)), Str (scan_mode mode), Num (int w),
         Num (uint (ans_type mode)), Flt (us_per_sample mode), Flt (max_distance mode)],
      Open_file (csv_filename mode),
      Write_file (Formatted ''theta,dist,q,flag\<newline>'' [])]"
  by (simp add: sweep_body_def Let_def)

lemma sweep_same_answers:
  assumes "\<And>k. snd (startScanExpress E' k) = snd (startScanExpress E k)"
    and "grabScanDataHq E' = grabScanDataHq E" and "now E' = now E"
  shows "sweep K E' w k modes = sweep K E w k modes"
  by (induction modes arbitrary: k) (simp_all add: sweep_body_def assms)

lemma main_sample_data_sweeps:
  assumes "bootstrap_ok K E" and "\<not> SL_IS_FAIL K (fst (getAllSupportedScanModes E))"
  shows "main_sample_data K E =
           \<lparr>exit_code = 0,
            trace = boot_events E @ [Call_setMotorSpeed, Call_getAllSupportedScanModes] @
                    sweep K E (max_name_len (snd (getAllSupportedScanModes E))) 0
                      (snd (getAllSupportedScanModes E)) @
                    [Call_stop]\<rparr>"
  using assms by (auto simp add: main_sample_data_def main_prologue_ok split: prod.splits)

lemma main_sample_data_same_answers:
  assumes "createSerialPortChannel E' = createSerialPortChannel E"
    and "createLidarDriver E' = createLidarDriver E"
    and "connect E' = connect E"
    and "getDeviceInfo E' = getDeviceInfo E"
    and "getHealth E' = getHealth E"
    and "getAllSupportedScanModes E' = getAllSupportedScanModes E"
    and "\<And>k. snd (startScanExpress E' k) = snd (startScanExpress E k)"
    and "grabScanDataHq E' = grabScanDataHq E" and "now E' = now E"
  shows "main_sample_data K E' = main_sample_data K E"
proof -
  have p: "main_prologue K E' = main_prologue K E"
    using assms(1-5) by (rule main_prologue_same_answers)
  have s: "sweep K E' w k modes = sweep K E w k modes" for w k modes
    using assms(7-9) by (rule sweep_same_answers)
  show ?thesis
    by (simp only: main_sample_data_def p s assms(6))
qed

lemma exit_code_main_sample_data:
  "exit_code (main_sample_data K E) = exit_code_of (failure_of K E)"
  by (auto simp add: main_sample_data_def main_prologue_def makeChannel_def makeDriver_def
      checkSLAMTECLIDARHealth_def failure_of_def Let_def split: prod.splits)

lemma artifacts_sweep_body:
  "artifacts (sweep_body K E w k mode @ r) = mode_artifact K E k mode # artifacts r"
  by (simp add: sweep_body_def mode_artifact_def Let_def written_until_close_row_writes
      artifacts_row_writes)

lemma artifacts_sweep:
  "artifacts (sweep K E w k modes @ r) =
     map (\<lambda>(i, mode). mode_artifact K E i mode) (enumerate k modes) @ artifacts r"
  by (induction modes arbitrary: k) (simp_all add: artifacts_sweep_body)

lemma artifacts_main_sample_data:
  assumes "bootstrap_ok K E" and "\<not> SL_IS_FAIL K (fst (getAllSupportedScanModes E))"
  shows "artifacts (trace (main_sample_data K E)) =
           map (\<lambda>(k, mode). mode_artifact K E k mode) (enumerate 0 (snd (getAllSupportedScanModes E)))"
  by (simp add: main_sample_data_sweeps [OF assms] artifacts_quiet [OF quiet_boot_events]
      artifacts_sweep)

lemma mode_artifact_nth:
  assumes "bootstrap_ok K E" and "\<not> SL_IS_FAIL K (fst (getAllSupportedScanModes E))"
    and "k < length (snd (getAllSupportedScanModes E))"
  shows "artifacts (trace (main_sample_data K E)) ! k =
           mode_artifact K E k (snd (getAllSupportedScanModes E) ! k)"
  using assms(3) by (simp add: artifacts_main_sample_data [OF assms(1,2)] nth_enumerate_eq)

lemma length_artifacts_main_sample_data:
  assumes "bootstrap_ok K E" and "\<not> SL_IS_FAIL K (fst (getAllSupportedScanModes E))"
  shows "length (artifacts (trace (main_sample_data K E))) = length (snd (getAllSupportedScanModes E))"
  by (simp add: artifacts_main_sample_data [OF assms])

subsection \<open>The decimal digits of a number\<close>

lemma digit_nth:
  assumes "d < 10"
  shows "(of_char (''0123456789'' ! d) :: nat) = 48 + d"
proof -
  from assms have "d \<in> {0, 1, 2, 3, 4, 5, 6, 7, 8, 9}"
    by auto
  then show ?thesis
    by auto
qed

lemma decimal_value_snoc: "decimal_value (s @ [c]) = 10 * decimal_value s + (of_char c - 48)"
  by (simp add: decimal_value_def)

lemma dec_unfold:
  "n < 10 \<Longrightarrow> dec n = [''0123456789'' ! n]"
  "\<not> n < 10 \<Longrightarrow> dec n = dec (n div 10) @ [''0123456789'' ! (n mod 10)]"
  by (subst dec.simps, simp del: dec.simps)+

lemma decimal_value_dec: "decimal_value (dec n) = n"
proof (induction n rule: dec.induct)
  case (1 n)
  show ?case
  proof (cases "n < 10")
    case True
    then show ?thesis
      by (simp only: dec_unfold(1) [OF True]) (simp add: decimal_value_def digit_nth del: dec.simps)
  next
    case False
    then have ih: "decimal_value (dec (n div 10)) = n div 10"
      by (rule "1.IH")
    have d: "(of_char (''0123456789'' ! (n mod 10)) :: nat) = 48 + n mod 10"
      by (rule digit_nth) simp
    have "dec n = dec (n div 10) @ [''0123456789'' ! (n mod 10)]"
      using False by (rule dec_unfold(2))
    then show ?thesis
      by (simp only: decimal_value_snoc ih d) (simp del: dec.simps)
  qed
qed

lemma dec_not_Nil: "dec n \<noteq> []"
proof (cases "n < 10")
  case True
  show ?thesis
    by (simp only: dec_unfold(1) [OF True]) (simp del: dec.simps)
next
  case False
  show ?thesis
    by (simp only: dec_unfold(2) [OF False]) (simp del: dec.simps)
qed

lemma digits_dec: "list_all is_digit (dec n)"
proof (induction n rule: dec.induct)
  case (1 n)
  have d: "is_digit (''0123456789'' ! m)" if "m < 10" for m
    using digit_nth [OF that] that by (simp only: is_digit_def) simp
  show ?case
  proof (cases "n < 10")
    case True
    then show ?thesis
      by (simp only: dec_unfold(1) [OF True]) (simp add: d del: dec.simps)
  next
    case False
    then have "list_all is_digit (dec (n div 10))"
      by (rule "1.IH")
    moreover have "is_digit (''0123456789'' ! (n mod 10))"
      by (rule d) simp
    ultimately show ?thesis
      by (simp only: dec_unfold(2) [OF False]) (simp del: dec.simps)
  qed
qed

lemma hd_dec: "0 < n \<Longrightarrow> hd (dec n) \<noteq> CHR ''0''"
proof (induction n rule: dec.induct)
  case (1 n)
  show ?case
  proof (cases "n < 10")
    case True
    with "1.prems" have "n \<in> {1, 2, 3, 4, 5, 6, 7, 8, 9}"
      by auto
    then have "''0123456789'' ! n \<noteq> CHR ''0''"
      by auto
    then show ?thesis
      by (simp only: dec_unfold(1) [OF True]) (simp del: dec.simps)
  next
    case False
    then have "0 < n div 10"
      by simp
    with False have "hd (dec (n div 10)) \<noteq> CHR ''0''"
      by (rule "1.IH")
    then show ?thesis
      using dec_not_Nil [of "n div 10"]
      by (simp only: dec_unfold(2) [OF False]) (simp del: dec.simps)
  qed
qed

lemma is_decimal_numeral_dec: "is_decimal_numeral (dec n)"
proof (cases "n = 0")
  case True
  then show ?thesis
    by (simp add: is_decimal_numeral_def is_digit_def)
next
  case False
  then show ?thesis
    using hd_dec [of n] by (simp add: is_decimal_numeral_def dec_not_Nil digits_dec del: dec.simps)
qed

subsection \<open>The example runs\<close>

lemma bootstrap_ok_env_ok: "bootstrap_ok sdk_header env_ok"
  by (simp add: bootstrap_ok_def health_check_reached_def Result_bool_def sdk_header_def env_ok_def)

lemma first_failure_env_ok: "first_failure sdk_header env_ok 1"
  by (simp add: first_failure_def sdk_header_def env_ok_def)

lemma env_ok_modes_ok: "\<not> SL_IS_FAIL sdk_header (fst (getAllSupportedScanModes env_ok))"
  by (simp add: sdk_header_def env_ok_def)

lemma env_ok_modes: "snd (getAllSupportedScanModes env_ok) = [mode_standard, mode_boost]"
  by (simp add: env_ok_def)

lemma csv_filename_examples:
  "csv_filename mode_standard = ''0_Standard_data.csv''"
  "csv_filename mode_boost = ''2_Boost_data.csv''"
  by (simp_all add: csv_filename_def mode_standard_def mode_boost_def)

lemma env_ok_rows:
  "map (csv_row sdk_header) (ascendScanData [node_a, node_b]) =
     [Formatted ''{},{},{},{}\<newline>'' [Flt (4095 / 4096), Flt 8388608, Num 15, Str ''S''],
      Formatted ''{},{},{},{}\<newline>'' [Flt 90, Flt 10, Num 47, Str []]]"
  by (simp add: ascendScanData_def node_a_def node_b_def csv_row_def csv_theta_def csv_dist_def
      float_of_nat_def Let_def sdk_header_def)

lemma csv_row_examples:
  "csv_row sdk_header node_b =
     Formatted ''{},{},{},{}\<newline>'' [Flt (4095 / 4096), Flt 8388608, Num 15, Str ''S'']"
  "csv_row sdk_header node_a = Formatted ''{},{},{},{}\<newline>'' [Flt 90, Flt 10, Num 47, Str []]"
  by (simp_all add: node_a_def node_b_def csv_row_def csv_theta_def csv_dist_def
      float_of_nat_def Let_def sdk_header_def)

lemma le_bytes_numeral:
  "le_bytes (numeral k) v = of_nat (v mod 256) # le_bytes (pred_numeral k) (v div 256)"
  by (subst numeral_eq_Suc) (simp only: le_bytes.simps)

lemma bytes_of_size_t_2: "bytes_of_size_t 2 = [2, 0, 0, 0, 0, 0, 0, 0]"
  by (simp add: bytes_of_size_t_def le_bytes_numeral)

lemma bytes_of_node_examples:
  "bytes_of_node node_a = [0, 64, 40, 0, 0, 0, 188, 0]"
  "bytes_of_node node_b = [182, 0, 1, 0, 0, 2, 60, 1]"
  by (simp_all add: bytes_of_node_def node_a_def node_b_def le_bytes_numeral)

lemma ascendScanData_example: "ascendScanData [node_a, node_b] = [node_b, node_a]"
  by (simp add: ascendScanData_def node_a_def node_b_def)

lemma env_ok_data_bin:
  "concat (map (\<lambda>k. [Raw (bytes_of_size_t (length (snd (grabScanDataHq env_ok k)))),
                      Raw (bytes_of_nodes (ascendScanData (snd (grabScanDataHq env_ok k))))]) [0..<1]) =
     [Raw [2, 0, 0, 0, 0, 0, 0, 0],
      Raw [182, 0, 1, 0, 0, 2, 60, 1, 0, 64, 40, 0, 0, 0, 188, 0]]"
proof -
  have g: "snd (grabScanDataHq env_ok 0) = [node_a, node_b]"
    by (simp add: env_ok_def)
  have l: "bytes_of_size_t (Suc (Suc 0)) = bytes_of_size_t 2"
    by (simp add: numeral_2_eq_2)
  show ?thesis
    by (simp add: g l ascendScanData_example bytes_of_nodes_def bytes_of_size_t_2
        bytes_of_node_examples)
qed

lemma env_ok_sample_data_calls:
  "driver_calls (trace (main_sample_data sdk_header env_ok)) =
     [Call_createSerialPortChannel ''/dev/ttyUSB0'' 115200, Call_createLidarDriver, Call_connect 1,
      Call_getDeviceInfo, Call_getHealth, Call_setMotorSpeed, Call_getAllSupportedScanModes,
      Call_startScanExpress False 0 0, Call_grabScanDataHq 8192, Call_ascendScanData 2,
      Call_startScanExpress False 2 0, Call_grabScanDataHq 8192, Call_stop]"
  "reports (trace (main_sample_data sdk_header env_ok)) = []"
  "exit_code (main_sample_data sdk_header env_ok) = 0"
proof -
  note run = main_sample_data_sweeps [OF bootstrap_ok_env_ok env_ok_modes_ok]
  have b: "driver_calls (boot_events env_ok) =
      [Call_createSerialPortChannel ''/dev/ttyUSB0'' 115200, Call_createLidarDriver, Call_connect 1,
       Call_getDeviceInfo, Call_getHealth]"
    by (simp add: driver_calls_boot_events) (simp add: env_ok_def)
  have s: "concat (map (\<lambda>(k, mode). sweep_calls sdk_header env_ok k mode)
                        (enumerate 0 (snd (getAllSupportedScanModes env_ok)))) =
            [Call_startScanExpress False 0 0, Call_grabScanDataHq 8192, Call_ascendScanData 2,
             Call_startScanExpress False 2 0, Call_grabScanDataHq 8192]"
    by (simp add: sweep_calls_def sdk_header_def env_ok_def mode_standard_def mode_boost_def)
  show "driver_calls (trace (main_sample_data sdk_header env_ok)) =
     [Call_createSerialPortChannel ''/dev/ttyUSB0'' 115200, Call_createLidarDriver, Call_connect 1,
      Call_getDeviceInfo, Call_getHealth, Call_setMotorSpeed, Call_getAllSupportedScanModes,
      Call_startScanExpress False 0 0, Call_grabScanDataHq 8192, Call_ascendScanData 2,
      Call_startScanExpress False 2 0, Call_grabScanDataHq 8192, Call_stop]"
    by (simp add: run driver_calls_append driver_calls_sweep driver_calls_simps b s)
  show "reports (trace (main_sample_data sdk_header env_ok)) = []"
    by (simp add: run reports_append reports_boot_events reports_sweep reports_simps)
  show "exit_code (main_sample_data sdk_header env_ok) = 0"
    by (simp add: run)
qed

lemma env_ok_read_data_bin_calls:
  "map_option (driver_calls \<circ> trace) (main_read_data_bin sdk_header env_ok) =
     Some [Call_createSerialPortChannel ''/dev/ttyUSB0'' 115200, Call_createLidarDriver, Call_connect 1,
           Call_getDeviceInfo, Call_getHealth, Call_setMotorSpeed, Call_startScan False True,
           Call_grabScanDataHq 8192, Call_ascendScanData 2, Call_grabScanDataHq 8192, Call_stop]"
proof -
  have b: "driver_calls (boot_events env_ok) =
      [Call_createSerialPortChannel ''/dev/ttyUSB0'' 115200, Call_createLidarDriver, Call_connect 1,
       Call_getDeviceInfo, Call_getHealth]"
    by (simp add: driver_calls_boot_events) (simp add: env_ok_def)
  have g: "snd (grabScanDataHq env_ok 0) = [node_a, node_b]"
    by (simp add: env_ok_def)
  show ?thesis
    by (simp add: main_read_data_bin_returns [OF bootstrap_ok_env_ok first_failure_env_ok]
        driver_calls_append b driver_calls_simps capture_start_events_def capture_ok_events_def
        capture_fail_events_def g)
qed

section \<open>The claims\<close>

subsection \<open>C1: a failing retrieval\<close>

text \<open>
  C1, as amended. In continuous capture the first failing retrieval ends the run: the run
  returns with status \<open>-1\<close>, its only diagnostic is the report of the failure with the text
  of the result code, and the driver calls end with the failing retrieval followed by
  \<^verbatim>\<open>stop()\<close>, so the retrieval is not tried again. In the multi-mode sweep a failing
  retrieval is neither reported nor terminal: the run writes no diagnostic, every mode
  gets its scan start and its single retrieval, \<^verbatim>\<open>stop()\<close> is called once after the last
  mode, and the status is \<open>0\<close>.
\<close>

theorem retrieval_failure_handling:
  assumes "bootstrap_ok K E"
  shows "(first_failure K E n \<longrightarrow>
            (\<exists>out. main_read_data_bin K E = Some out \<and> exit_code out = - 1 \<and>
               reports (trace out) =
                 [Println Stderr ''Failed to read from lidar: {}''
                    [Str (resultErrorString K (fst (grabScanDataHq E n)))]] \<and>
               driver_calls (trace out) =
                 driver_calls (boot_events E) @ [Call_setMotorSpeed, Call_startScan False True] @
                 concat (map (\<lambda>k. [Call_grabScanDataHq 8192,
                                    Call_ascendScanData (length (snd (grabScanDataHq E k)))]) [0..<n]) @
                 [Call_grabScanDataHq 8192, Call_stop])) \<and>
         (\<not> SL_IS_FAIL K (fst (getAllSupportedScanModes E)) \<longrightarrow>
            exit_code (main_sample_data K E) = 0 \<and>
            reports (trace (main_sample_data K E)) = [] \<and>
            driver_calls (trace (main_sample_data K E)) =
              driver_calls (boot_events E) @ [Call_setMotorSpeed, Call_getAllSupportedScanModes] @
              concat (map (\<lambda>(k, mode). sweep_calls K E k mode)
                        (enumerate 0 (snd (getAllSupportedScanModes E)))) @
              [Call_stop])"
proof (intro conjI impI)
  assume ff: "first_failure K E n"
  have r: "reports (concat (map (capture_ok_events E) ks)) = []" for ks
    by (induction ks) (simp_all add: reports_def capture_ok_events_def)
  have c: "driver_calls (concat (map (capture_ok_events E) ks)) =
           concat (map (\<lambda>k. [Call_grabScanDataHq 8192,
                              Call_ascendScanData (length (snd (grabScanDataHq E k)))]) ks)" for ks
    by (induction ks) (simp_all add: driver_calls_def capture_ok_events_def)
  have r': "reports capture_start_events = []"
    by (simp add: reports_def capture_start_events_def)
  have c': "driver_calls capture_start_events = [Call_setMotorSpeed, Call_startScan False True]"
    by (simp add: driver_calls_def capture_start_events_def)
  have r'': "reports (capture_fail_events K E n) =
      [Println Stderr ''Failed to read from lidar: {}'' [Str (resultErrorString K (fst (grabScanDataHq E n)))]]"
    by (simp add: reports_def capture_fail_events_def)
  have c'': "driver_calls (capture_fail_events K E n) = [Call_grabScanDataHq 8192, Call_stop]"
    by (simp add: driver_calls_def capture_fail_events_def)
  show "\<exists>out. main_read_data_bin K E = Some out \<and> exit_code out = - 1 \<and>
               reports (trace out) =
                 [Println Stderr ''Failed to read from lidar: {}''
                    [Str (resultErrorString K (fst (grabScanDataHq E n)))]] \<and>
               driver_calls (trace out) =
                 driver_calls (boot_events E) @ [Call_setMotorSpeed, Call_startScan False True] @
                 concat (map (\<lambda>k. [Call_grabScanDataHq 8192,
                                    Call_ascendScanData (length (snd (grabScanDataHq E k)))]) [0..<n]) @
                 [Call_grabScanDataHq 8192, Call_stop]"
    by (simp add: main_read_data_bin_returns [OF assms ff] reports_append driver_calls_append
        reports_boot_events r r' r'' c c' c'')
next
  assume ok: "\<not> SL_IS_FAIL K (fst (getAllSupportedScanModes E))"
  show "exit_code (main_sample_data K E) = 0"
    by (simp add: main_sample_data_sweeps [OF assms ok])
  show "reports (trace (main_sample_data K E)) = []"
    by (simp add: main_sample_data_sweeps [OF assms ok] reports_append reports_boot_events reports_sweep
        reports_simps)
  show "driver_calls (trace (main_sample_data K E)) =
              driver_calls (boot_events E) @ [Call_setMotorSpeed, Call_getAllSupportedScanModes] @
              concat (map (\<lambda>(k, mode). sweep_calls K E k mode)
                        (enumerate 0 (snd (getAllSupportedScanModes E)))) @
              [Call_stop]"
    by (simp add: main_sample_data_sweeps [OF assms ok] driver_calls_append driver_calls_sweep
        driver_calls_simps)
qed

text \<open>The run of \<open>env_ok\<close>: one batch, then a timeout; two modes, the second one failing.\<close>

theorem retrieval_failure_handling_witness:
  "bootstrap_ok sdk_header env_ok \<and> first_failure sdk_header env_ok 1 \<and>
   \<not> SL_IS_FAIL sdk_header (fst (getAllSupportedScanModes env_ok)) \<and>
   (\<exists>out. main_read_data_bin sdk_header env_ok = Some out \<and> exit_code out = - 1 \<and>
      reports (trace out) = [Println Stderr ''Failed to read from lidar: {}'' [Str ''OPERATION_TIMEOUT'']] \<and>
      driver_calls (trace out) =
        [Call_createSerialPortChannel ''/dev/ttyUSB0'' 115200, Call_createLidarDriver, Call_connect 1,
         Call_getDeviceInfo, Call_getHealth, Call_setMotorSpeed, Call_startScan False True,
         Call_grabScanDataHq 8192, Call_ascendScanData 2, Call_grabScanDataHq 8192, Call_stop]) \<and>
   exit_code (main_sample_data sdk_header env_ok) = 0 \<and>
   reports (trace (main_sample_data sdk_header env_ok)) = [] \<and>
   driver_calls (trace (main_sample_data sdk_header env_ok)) =
     [Call_createSerialPortChannel ''/dev/ttyUSB0'' 115200, Call_createLidarDriver, Call_connect 1,
      Call_getDeviceInfo, Call_getHealth, Call_setMotorSpeed, Call_getAllSupportedScanModes,
      Call_startScanExpress False 0 0, Call_grabScanDataHq 8192, Call_ascendScanData 2,
      Call_startScanExpress False 2 0, Call_grabScanDataHq 8192, Call_stop]"
proof -
  have m: "\<not> SL_IS_FAIL sdk_header (fst (getAllSupportedScanModes env_ok))"
    by (simp add: sdk_header_def env_ok_def)
  have e1: "resultErrorString sdk_header (fst (grabScanDataHq env_ok 1)) = ''OPERATION_TIMEOUT''"
    by (simp add: sdk_header_def env_ok_def resultErrorString_def)
  have e2: "driver_calls (boot_events env_ok) =
      [Call_createSerialPortChannel ''/dev/ttyUSB0'' 115200, Call_createLidarDriver, Call_connect 1,
       Call_getDeviceInfo, Call_getHealth]"
    by (simp add: driver_calls_boot_events) (simp add: env_ok_def)
  have e3: "concat (map (\<lambda>k. [Call_grabScanDataHq 8192,
                Call_ascendScanData (length (snd (grabScanDataHq env_ok k)))]) [0..<1]) =
            [Call_grabScanDataHq 8192, Call_ascendScanData 2]"
    by (simp add: env_ok_def)
  have e4: "concat (map (\<lambda>(k, mode). sweep_calls sdk_header env_ok k mode)
                        (enumerate 0 (snd (getAllSupportedScanModes env_ok)))) =
            [Call_startScanExpress False 0 0, Call_grabScanDataHq 8192, Call_ascendScanData 2,
             Call_startScanExpress False 2 0, Call_grabScanDataHq 8192]"
    by (simp add: sweep_calls_def sdk_header_def env_ok_def mode_standard_def mode_boost_def)
  show ?thesis
    using retrieval_failure_handling [OF bootstrap_ok_env_ok, of 1] bootstrap_ok_env_ok
      first_failure_env_ok m
    unfolding e1 e2 e3 e4 by simp
qed

text \<open>
  C1 as stated fails on the sweep: the retrieval of the first mode times out, nothing is
  reported, and the sweep goes on to start the second mode and to retrieve its samples
  before \<^verbatim>\<open>stop()\<close> is called.
\<close>

theorem sweep_retrieval_failure_counterexample:
  "bootstrap_ok sdk_header env_first_retrieval_fails \<and>
   \<not> SL_IS_OK sdk_header (fst (grabScanDataHq env_first_retrieval_fails 0)) \<and>
   exit_code (main_sample_data sdk_header env_first_retrieval_fails) = 0 \<and>
   reports (trace (main_sample_data sdk_header env_first_retrieval_fails)) = [] \<and>
   driver_calls (trace (main_sample_data sdk_header env_first_retrieval_fails)) =
     [Call_createSerialPortChannel ''/dev/ttyUSB0'' 115200, Call_createLidarDriver, Call_connect 1,
      Call_getDeviceInfo, Call_getHealth, Call_setMotorSpeed, Call_getAllSupportedScanModes,
      Call_startScanExpress False 0 0, Call_grabScanDataHq 8192,
      Call_startScanExpress False 2 0, Call_grabScanDataHq 8192, Call_ascendScanData 2, Call_stop]"
  by (simp add: bootstrap_ok_def health_check_reached_def Result_bool_def main_sample_data_def main_prologue_def makeChannel_def
      makeDriver_def checkSLAMTECLIDARHealth_def print_devinfo_def sweep_body_def Let_def
      driver_calls_def reports_def filter_map comp_def
      sdk_header_def env_first_retrieval_fails_def env_ok_def mode_standard_def mode_boost_def)

subsection \<open>C2: the sweep visits every mode\<close>

text \<open>
  C2. In a run that passes the bootstrap and the capability query, whatever the
  retrievals return: the scan starts of the run are those of the enumerated modes, one
  for each mode, in the order of the enumeration; the driver calls are the bootstrap,
  the motor start and the capability query, then for every mode its scan start and its
  retrieval (followed by the reorder step when the retrieval succeeded), then \<^verbatim>\<open>stop()\<close>,
  which is the last event of the run; the run returns \<open>0\<close>; and the file of each mode
  depends on the retrieval of that mode only: the header alone when it failed, the header
  and the rows when it succeeded.
\<close>

theorem sweep_visits_every_mode_once:
  assumes "bootstrap_ok K E" and "\<not> SL_IS_FAIL K (fst (getAllSupportedScanModes E))"
  shows "filter is_scan_start (trace (main_sample_data K E)) =
           map (\<lambda>mode. Call_startScanExpress False (mode_id mode) 0) (snd (getAllSupportedScanModes E)) \<and>
         driver_calls (trace (main_sample_data K E)) =
           driver_calls (boot_events E) @ [Call_setMotorSpeed, Call_getAllSupportedScanModes] @
           concat (map (\<lambda>(k, mode). sweep_calls K E k mode)
                     (enumerate 0 (snd (getAllSupportedScanModes E)))) @
           [Call_stop] \<and>
         last (trace (main_sample_data K E)) = Call_stop \<and>
         exit_code (main_sample_data K E) = 0 \<and>
         artifacts (trace (main_sample_data K E)) =
           map (\<lambda>(k, mode). mode_artifact K E k mode) (enumerate 0 (snd (getAllSupportedScanModes E)))"
proof (intro conjI)
  note run = main_sample_data_sweeps [OF assms]
  show "filter is_scan_start (trace (main_sample_data K E)) =
           map (\<lambda>mode. Call_startScanExpress False (mode_id mode) 0) (snd (getAllSupportedScanModes E))"
    by (simp add: run scan_starts_boot_events scan_starts_sweep)
  show "driver_calls (trace (main_sample_data K E)) =
           driver_calls (boot_events E) @ [Call_setMotorSpeed, Call_getAllSupportedScanModes] @
           concat (map (\<lambda>(k, mode). sweep_calls K E k mode)
                     (enumerate 0 (snd (getAllSupportedScanModes E)))) @
           [Call_stop]"
    by (simp add: run driver_calls_append driver_calls_sweep driver_calls_simps)
  show "last (trace (main_sample_data K E)) = Call_stop"
    by (simp add: run)
  show "exit_code (main_sample_data K E) = 0"
    by (simp add: run)
  show "artifacts (trace (main_sample_data K E)) =
           map (\<lambda>(k, mode). mode_artifact K E k mode) (enumerate 0 (snd (getAllSupportedScanModes E)))"
    using assms by (rule artifacts_main_sample_data)
qed

text \<open>
  The run of \<open>env_ok\<close>: the retrieval of the second mode times out, the second file holds
  the header only, and \<^verbatim>\<open>stop()\<close> is reached.
\<close>

theorem sweep_visits_every_mode_once_witness:
  "bootstrap_ok sdk_header env_ok \<and>
   \<not> SL_IS_FAIL sdk_header (fst (getAllSupportedScanModes env_ok)) \<and>
   \<not> SL_IS_OK sdk_header (fst (grabScanDataHq env_ok 1)) \<and>
   filter is_scan_start (trace (main_sample_data sdk_header env_ok)) =
     [Call_startScanExpress False 0 0, Call_startScanExpress False 2 0] \<and>
   last (trace (main_sample_data sdk_header env_ok)) = Call_stop \<and>
   exit_code (main_sample_data sdk_header env_ok) = 0 \<and>
   artifacts (trace (main_sample_data sdk_header env_ok)) =
     [(''0_Standard_data.csv'',
       [Formatted ''theta,dist,q,flag\<newline>'' [],
        Formatted ''{},{},{},{}\<newline>'' [Flt (4095 / 4096), Flt 8388608, Num 15, Str ''S''],
        Formatted ''{},{},{},{}\<newline>'' [Flt 90, Flt 10, Num 47, Str []]]),
      (''2_Boost_data.csv'', [Formatted ''theta,dist,q,flag\<newline>'' []])]"
proof -
  have g0: "grabScanDataHq env_ok 0 = (0, [node_a, node_b])"
    and g1: "grabScanDataHq env_ok (Suc 0) = (0x80008002, [])"
    by (simp_all add: env_ok_def)
  have ok0: "SL_IS_OK sdk_header 0" and ok1: "\<not> SL_IS_OK sdk_header 0x80008002"
    by (simp_all add: sdk_header_def)
  have ids: "mode_id mode_standard = 0" "mode_id mode_boost = 2"
    by (simp_all add: mode_standard_def mode_boost_def)
  show ?thesis
    using sweep_visits_every_mode_once [OF bootstrap_ok_env_ok env_ok_modes_ok]
      bootstrap_ok_env_ok env_ok_modes_ok
    by (simp add: env_ok_modes mode_artifact_def g0 g1 ok0 ok1 ids csv_filename_examples env_ok_rows)
qed

subsection \<open>C3: an unhealthy device\<close>

text \<open>
  C3. In a run that reaches the health check and whose health query succeeds: when the
  status is ERROR, both applications report the internal error on the error stream and
  return \<open>-1\<close>, and the driver calls of the run end with the health query, so that neither
  \<^verbatim>\<open>setMotorSpeed\<close> nor \<^verbatim>\<open>startScan\<close> nor \<^verbatim>\<open>startScanExpress\<close> is called; with any other status
  (WARNING is one) the run goes on to the motor start, the sweep then makes the scan
  starts of the enumerated modes when the capability query succeeds, and the continuous
  capture starts its scan and enters the retrieval loop.
\<close>

theorem unhealthy_device_blocks_scanning:
  assumes "health_check_reached K E" and "SL_IS_OK K (fst (getHealth E))"
  shows "(status (snd (getHealth E)) = SL_LIDAR_STATUS_ERROR K \<longrightarrow>
            exit_code (main_sample_data K E) = - 1 \<and>
            reports (trace (main_sample_data K E)) =
              [Println Stderr
                 ''Error, slamtec lidar internal error detected. Please reboot the device to retry.'' []] \<and>
            driver_calls (trace (main_sample_data K E)) =
              [Call_createSerialPortChannel ''/dev/ttyUSB0'' 115200, Call_createLidarDriver,
               Call_connect (pointer (createSerialPortChannel E)), Call_getDeviceInfo, Call_getHealth] \<and>
            main_read_data_bin K E = Some (main_sample_data K E)) \<and>
         (status (snd (getHealth E)) \<noteq> SL_LIDAR_STATUS_ERROR K \<longrightarrow>
            take 6 (driver_calls (trace (main_sample_data K E))) =
              [Call_createSerialPortChannel ''/dev/ttyUSB0'' 115200, Call_createLidarDriver,
               Call_connect (pointer (createSerialPortChannel E)), Call_getDeviceInfo, Call_getHealth,
               Call_setMotorSpeed] \<and>
            (\<not> SL_IS_FAIL K (fst (getAllSupportedScanModes E)) \<longrightarrow>
               filter is_scan_start (trace (main_sample_data K E)) =
                 map (\<lambda>mode. Call_startScanExpress False (mode_id mode) 0)
                   (snd (getAllSupportedScanModes E))) \<and>
            main_read_data_bin K E = capture_loop K E 0 (boot_events E @ capture_start_events) \<and>
            driver_calls (boot_events E @ capture_start_events) =
              [Call_createSerialPortChannel ''/dev/ttyUSB0'' 115200, Call_createLidarDriver,
               Call_connect (pointer (createSerialPortChannel E)), Call_getDeviceInfo, Call_getHealth,
               Call_setMotorSpeed, Call_startScan False True])"
proof (intro conjI impI)
  assume e: "status (snd (getHealth E)) = SL_LIDAR_STATUS_ERROR K"
  note p = main_prologue_unhealthy [OF assms e]
  show "exit_code (main_sample_data K E) = - 1"
    by (simp add: main_sample_data_def p)
  show "reports (trace (main_sample_data K E)) =
              [Println Stderr
                 ''Error, slamtec lidar internal error detected. Please reboot the device to retry.'' []]"
    by (simp add: main_sample_data_def p reports_append reports_boot_events reports_simps)
  show "driver_calls (trace (main_sample_data K E)) =
              [Call_createSerialPortChannel ''/dev/ttyUSB0'' 115200, Call_createLidarDriver,
               Call_connect (pointer (createSerialPortChannel E)), Call_getDeviceInfo, Call_getHealth]"
    by (simp add: main_sample_data_def p driver_calls_append driver_calls_boot_events driver_calls_simps)
  show "main_read_data_bin K E = Some (main_sample_data K E)"
    by (simp add: main_sample_data_def main_read_data_bin_def p)
next
  assume "status (snd (getHealth E)) \<noteq> SL_LIDAR_STATUS_ERROR K"
  with assms have b: "bootstrap_ok K E"
    by (simp add: bootstrap_ok_def)
  show "take 6 (driver_calls (trace (main_sample_data K E))) =
              [Call_createSerialPortChannel ''/dev/ttyUSB0'' 115200, Call_createLidarDriver,
               Call_connect (pointer (createSerialPortChannel E)), Call_getDeviceInfo, Call_getHealth,
               Call_setMotorSpeed]"
    using b
    by (simp add: main_sample_data_def main_prologue_ok driver_calls_append driver_calls_simps
        driver_calls_boot_events split: prod.splits)
  show "main_read_data_bin K E = capture_loop K E 0 (boot_events E @ capture_start_events)"
    using b by (rule main_read_data_bin_enters_loop)
  show "driver_calls (boot_events E @ capture_start_events) =
              [Call_createSerialPortChannel ''/dev/ttyUSB0'' 115200, Call_createLidarDriver,
               Call_connect (pointer (createSerialPortChannel E)), Call_getDeviceInfo, Call_getHealth,
               Call_setMotorSpeed, Call_startScan False True]"
    by (simp add: driver_calls_append driver_calls_simps driver_calls_boot_events
        capture_start_events_def)
  assume m: "\<not> SL_IS_FAIL K (fst (getAllSupportedScanModes E))"
  show "filter is_scan_start (trace (main_sample_data K E)) =
                 map (\<lambda>mode. Call_startScanExpress False (mode_id mode) 0)
                   (snd (getAllSupportedScanModes E))"
    by (simp add: main_sample_data_sweeps [OF b m] scan_starts_boot_events scan_starts_sweep)
qed

text \<open>
  The run of \<open>env_unhealthy\<close> (status \<open>2\<close>, ERROR) stops after the health query; the run of
  \<open>env_ok\<close> (status \<open>1\<close>, WARNING) starts the motor and the scans.
\<close>

theorem unhealthy_device_blocks_scanning_witness:
  "health_check_reached sdk_header env_unhealthy \<and>
   SL_IS_OK sdk_header (fst (getHealth env_unhealthy)) \<and>
   status (snd (getHealth env_unhealthy)) = SL_LIDAR_STATUS_ERROR sdk_header \<and>
   exit_code (main_sample_data sdk_header env_unhealthy) = - 1 \<and>
   driver_calls (trace (main_sample_data sdk_header env_unhealthy)) =
     [Call_createSerialPortChannel ''/dev/ttyUSB0'' 115200, Call_createLidarDriver, Call_connect 1,
      Call_getDeviceInfo, Call_getHealth] \<and>
   main_read_data_bin sdk_header env_unhealthy = Some (main_sample_data sdk_header env_unhealthy) \<and>
   health_check_reached sdk_header env_ok \<and>
   SL_IS_OK sdk_header (fst (getHealth env_ok)) \<and>
   status (snd (getHealth env_ok)) = 1 \<and>
   status (snd (getHealth env_ok)) \<noteq> SL_LIDAR_STATUS_ERROR sdk_header \<and>
   take 6 (driver_calls (trace (main_sample_data sdk_header env_ok))) =
     [Call_createSerialPortChannel ''/dev/ttyUSB0'' 115200, Call_createLidarDriver, Call_connect 1,
      Call_getDeviceInfo, Call_getHealth, Call_setMotorSpeed] \<and>
   filter is_scan_start (trace (main_sample_data sdk_header env_ok)) =
     [Call_startScanExpress False 0 0, Call_startScanExpress False 2 0]"
proof -
  have u: "health_check_reached sdk_header env_unhealthy"
    "SL_IS_OK sdk_header (fst (getHealth env_unhealthy))"
    "status (snd (getHealth env_unhealthy)) = SL_LIDAR_STATUS_ERROR sdk_header"
    "pointer (createSerialPortChannel env_unhealthy) = 1"
    by (simp_all add: health_check_reached_def Result_bool_def env_unhealthy_def env_ok_def
        sdk_header_def)
  have w: "health_check_reached sdk_header env_ok"
    "SL_IS_OK sdk_header (fst (getHealth env_ok))"
    "status (snd (getHealth env_ok)) = 1"
    "status (snd (getHealth env_ok)) \<noteq> SL_LIDAR_STATUS_ERROR sdk_header"
    "pointer (createSerialPortChannel env_ok) = 1"
    by (simp_all add: health_check_reached_def Result_bool_def env_ok_def sdk_header_def)
  have ids: "mode_id mode_standard = 0" "mode_id mode_boost = 2"
    by (simp_all add: mode_standard_def mode_boost_def)
  from unhealthy_device_blocks_scanning [OF u(1,2)] u(3,4)
  have a: "exit_code (main_sample_data sdk_header env_unhealthy) = - 1 \<and>
   driver_calls (trace (main_sample_data sdk_header env_unhealthy)) =
     [Call_createSerialPortChannel ''/dev/ttyUSB0'' 115200, Call_createLidarDriver, Call_connect 1,
      Call_getDeviceInfo, Call_getHealth] \<and>
   main_read_data_bin sdk_header env_unhealthy = Some (main_sample_data sdk_header env_unhealthy)"
    by simp
  from unhealthy_device_blocks_scanning [OF w(1,2)] w(4,5) env_ok_modes_ok
  have b: "take 6 (driver_calls (trace (main_sample_data sdk_header env_ok))) =
     [Call_createSerialPortChannel ''/dev/ttyUSB0'' 115200, Call_createLidarDriver, Call_connect 1,
      Call_getDeviceInfo, Call_getHealth, Call_setMotorSpeed] \<and>
   filter is_scan_start (trace (main_sample_data sdk_header env_ok)) =
     [Call_startScanExpress False 0 0, Call_startScanExpress False 2 0]"
    by (simp add: env_ok_modes ids)
  show ?thesis
    using u(1-3) w(1-4) a b by simp
qed

subsection \<open>C4: the reorder step comes before the export\<close>

text \<open>
  C4. In the sweep, the rows of the file of a mode whose retrieval succeeded are the rows
  of the batch as \<^verbatim>\<open>ascendScanData\<close> leaves it, and the angles written are non-decreasing.
  In continuous capture, every block of the file holds the records of the batch as
  \<^verbatim>\<open>ascendScanData\<close> leaves it, whose raw angles are non-decreasing. A raw angle is a 16-bit
  number, one revolution being \<open>2\<^sup>1\<^sup>6\<close>.
\<close>

theorem batches_are_reordered_before_export:
  assumes "bootstrap_ok K E"
  shows "(\<not> SL_IS_FAIL K (fst (getAllSupportedScanModes E)) \<longrightarrow>
            (\<forall>k<length (snd (getAllSupportedScanModes E)).
               SL_IS_OK K (fst (grabScanDataHq E k)) \<longrightarrow>
                 snd (artifacts (trace (main_sample_data K E)) ! k) =
                   Formatted ''theta,dist,q,flag\<newline>'' [] #
                   map (csv_row K) (ascendScanData (snd (grabScanDataHq E k))) \<and>
                 sorted (map csv_theta (ascendScanData (snd (grabScanDataHq E k)))))) \<and>
         (first_failure K E n \<longrightarrow>
            (\<exists>out. main_read_data_bin K E = Some out \<and>
               artifacts (trace out) =
                 [(''data.bin'',
                   concat (map (\<lambda>k. [Raw (bytes_of_size_t (length (snd (grabScanDataHq E k)))),
                                      Raw (bytes_of_nodes (ascendScanData (snd (grabScanDataHq E k))))])
                             [0..<n]))]) \<and>
            (\<forall>k<n. sorted (map (\<lambda>nd. unat (angle_z_q14 nd)) (ascendScanData (snd (grabScanDataHq E k))))))"
proof (intro conjI impI allI)
  fix k
  assume "\<not> SL_IS_FAIL K (fst (getAllSupportedScanModes E))"
    and "k < length (snd (getAllSupportedScanModes E))"
    and "SL_IS_OK K (fst (grabScanDataHq E k))"
  then show "snd (artifacts (trace (main_sample_data K E)) ! k) =
                   Formatted ''theta,dist,q,flag\<newline>'' [] #
                   map (csv_row K) (ascendScanData (snd (grabScanDataHq E k)))"
    by (simp add: mode_artifact_nth [OF assms] mode_artifact_def)
next
  fix k
  show "sorted (map csv_theta (ascendScanData (snd (grabScanDataHq E k))))"
    by (rule sorted_csv_theta_ascendScanData)
next
  assume "first_failure K E n"
  with assms show "\<exists>out. main_read_data_bin K E = Some out \<and>
               artifacts (trace out) =
                 [(''data.bin'',
                   concat (map (\<lambda>k. [Raw (bytes_of_size_t (length (snd (grabScanDataHq E k)))),
                                      Raw (bytes_of_nodes (ascendScanData (snd (grabScanDataHq E k))))])
                             [0..<n]))]"
    by (rule artifacts_main_read_data_bin)
next
  fix k
  show "sorted (map (\<lambda>nd. unat (angle_z_q14 nd)) (ascendScanData (snd (grabScanDataHq E k))))"
    by (rule sorted_ascendScanData)
qed

text \<open>
  The run of \<open>env_ok\<close>: the driver returns the node at angle \<open>16384\<close> before the node at
  angle \<open>182\<close>; the table and the binary block hold them in the other order.
\<close>

theorem batches_are_reordered_before_export_witness:
  "bootstrap_ok sdk_header env_ok \<and>
   \<not> SL_IS_FAIL sdk_header (fst (getAllSupportedScanModes env_ok)) \<and>
   0 < length (snd (getAllSupportedScanModes env_ok)) \<and>
   SL_IS_OK sdk_header (fst (grabScanDataHq env_ok 0)) \<and>
   first_failure sdk_header env_ok 1 \<and>
   snd (grabScanDataHq env_ok 0) = [node_a, node_b] \<and>
   ascendScanData (snd (grabScanDataHq env_ok 0)) = [node_b, node_a] \<and>
   snd (artifacts (trace (main_sample_data sdk_header env_ok)) ! 0) =
     [Formatted ''theta,dist,q,flag\<newline>'' [],
      Formatted ''{},{},{},{}\<newline>'' [Flt (4095 / 4096), Flt 8388608, Num 15, Str ''S''],
      Formatted ''{},{},{},{}\<newline>'' [Flt 90, Flt 10, Num 47, Str []]] \<and>
   sorted (map csv_theta (ascendScanData (snd (grabScanDataHq env_ok 0)))) \<and>
   (\<exists>out. main_read_data_bin sdk_header env_ok = Some out \<and>
      artifacts (trace out) =
        [(''data.bin'',
          [Raw [2, 0, 0, 0, 0, 0, 0, 0],
           Raw [182, 0, 1, 0, 0, 2, 60, 1, 0, 64, 40, 0, 0, 0, 188, 0]])])"
proof -
  have k: "0 < length (snd (getAllSupportedScanModes env_ok))"
    by (simp add: env_ok_modes)
  have g: "SL_IS_OK sdk_header (fst (grabScanDataHq env_ok 0))"
    by (simp add: env_ok_def sdk_header_def)
  have n: "snd (grabScanDataHq env_ok 0) = [node_a, node_b]"
    by (simp add: env_ok_def)
  note a = ascendScanData_example
  note t = batches_are_reordered_before_export [OF bootstrap_ok_env_ok, of 1]
  from t env_ok_modes_ok k g have t1:
    "snd (artifacts (trace (main_sample_data sdk_header env_ok)) ! 0) =
       Formatted ''theta,dist,q,flag\<newline>'' [] #
       map (csv_row sdk_header) (ascendScanData (snd (grabScanDataHq env_ok 0)))"
    and t2: "sorted (map csv_theta (ascendScanData (snd (grabScanDataHq env_ok 0))))"
    by blast+
  from t first_failure_env_ok have t3:
    "\<exists>out. main_read_data_bin sdk_header env_ok = Some out \<and>
       artifacts (trace out) =
         [(''data.bin'',
           concat (map (\<lambda>k. [Raw (bytes_of_size_t (length (snd (grabScanDataHq env_ok k)))),
                              Raw (bytes_of_nodes (ascendScanData (snd (grabScanDataHq env_ok k))))])
                     [0..<1]))]"
    by blast
  show ?thesis
    using bootstrap_ok_env_ok env_ok_modes_ok k g first_failure_env_ok t1 t2 t3
    unfolding env_ok_data_bin n
    by (simp add: a csv_row_examples)
qed

subsection \<open>C5: the blocks of the binary file\<close>

text \<open>
  C5. In a continuous capture in which the first \<open>n\<close> retrievals succeed, each with at
  most 8192 nodes (the capacity of the buffer), and the next one fails, the run returns
  with status \<open>-1\<close> and leaves the file \<^verbatim>\<open>data.bin\<close>. The writes to the file are, for each
  batch in turn, its count and then its records, and nothing else. Its bytes are \<open>n\<close> blocks one after the
  other, the block of a batch being the 8 bytes of the number of its nodes followed by
  the 8 bytes of each of its (reordered) nodes; read back in the format of the spec, the
  file yields exactly these \<open>n\<close> blocks, each with as many records as the batch had nodes,
  and no bytes are left over for a further, partial block.
\<close>

theorem capture_writes_whole_blocks:
  assumes "bootstrap_ok K E" and "first_failure K E n"
    and "list_all (\<lambda>k. length (snd (grabScanDataHq E k)) \<le> 8192) [0..<n]"
  shows "\<exists>out ws. main_read_data_bin K E = Some out \<and> exit_code out = - 1 \<and>
           artifacts (trace out) = [(''data.bin'', ws)] \<and>
           ws = concat (map (\<lambda>k. [Raw (bytes_of_size_t (length (snd (grabScanDataHq E k)))),
                                    Raw (bytes_of_nodes (ascendScanData (snd (grabScanDataHq E k))))])
                     [0..<n]) \<and>
           file_bytes ws =
             concat (map (\<lambda>k. bytes_of_size_t (length (snd (grabScanDataHq E k))) @
                               bytes_of_nodes (ascendScanData (snd (grabScanDataHq E k)))) [0..<n]) \<and>
           length (file_bytes ws) = (\<Sum>k\<leftarrow>[0..<n]. 8 + 8 * length (snd (grabScanDataHq E k))) \<and>
           read_blocks (file_bytes ws) =
             Some (map (\<lambda>k. map bytes_of_node (ascendScanData (snd (grabScanDataHq E k)))) [0..<n]) \<and>
           map length (the (read_blocks (file_bytes ws))) =
             map (\<lambda>k. length (snd (grabScanDataHq E k))) [0..<n]"
proof -
  let ?ws = "concat (map (\<lambda>k. [Raw (bytes_of_size_t (length (snd (grabScanDataHq E k)))),
                                Raw (bytes_of_nodes (ascendScanData (snd (grabScanDataHq E k))))])
                       [0..<n])"
  let ?batches = "map (\<lambda>k. ascendScanData (snd (grabScanDataHq E k))) [0..<n]"
  have run: "main_read_data_bin K E =
      Some \<lparr>exit_code = - 1,
            trace = boot_events E @ capture_start_events @
                    concat (map (capture_ok_events E) [0..<n]) @ capture_fail_events K E n\<rparr>"
    using assms(1,2) by (rule main_read_data_bin_returns)
  have art: "artifacts (boot_events E @ capture_start_events @
                    concat (map (capture_ok_events E) [0..<n]) @ capture_fail_events K E n) =
             [(''data.bin'', ?ws)]"
    by (simp add: artifacts_quiet [OF quiet_boot_events]
      capture_start_events_def artifacts_capture_ok_events no_open_capture_ok_events
      capture_fail_events_def)
  have bytes: "file_bytes ?ws =
      concat (map (\<lambda>nodes. bytes_of_size_t (length nodes) @ bytes_of_nodes nodes) ?batches)"
    by (simp add: file_bytes_blocks comp_def length_ascendScanData)
  have small: "\<forall>nodes \<in> set ?batches. length nodes < 2 ^ 64"
  proof
    fix nodes assume "nodes \<in> set ?batches"
    then obtain k where "k < n" and "nodes = ascendScanData (snd (grabScanDataHq E k))"
      by auto
    moreover from assms(3) \<open>k < n\<close> have "length (snd (grabScanDataHq E k)) \<le> 8192"
      by (simp add: list_all_iff)
    ultimately show "length nodes < 2 ^ 64"
      by (simp add: length_ascendScanData)
  qed
  have rd: "read_blocks (file_bytes ?ws) = Some (map (map bytes_of_node) ?batches)"
    unfolding bytes using small by (rule read_blocks_blocks)
  have len: "length (file_bytes ?ws) = (\<Sum>k\<leftarrow>[0..<n]. 8 + 8 * length (snd (grabScanDataHq E k)))"
    by (simp add: bytes comp_def length_concat length_bytes_of_size_t length_bytes_of_nodes
        length_ascendScanData)
  let ?out = "\<lparr>exit_code = - 1,
            trace = boot_events E @ capture_start_events @
                    concat (map (capture_ok_events E) [0..<n]) @ capture_fail_events K E n\<rparr>"
  have "main_read_data_bin K E = Some ?out \<and> exit_code ?out = - 1 \<and>
           artifacts (trace ?out) = [(''data.bin'', ?ws)] \<and>
           ?ws = concat (map (\<lambda>k. [Raw (bytes_of_size_t (length (snd (grabScanDataHq E k)))),
                                     Raw (bytes_of_nodes (ascendScanData (snd (grabScanDataHq E k))))])
                      [0..<n]) \<and>
           file_bytes ?ws =
             concat (map (\<lambda>k. bytes_of_size_t (length (snd (grabScanDataHq E k))) @
                               bytes_of_nodes (ascendScanData (snd (grabScanDataHq E k)))) [0..<n]) \<and>
           length (file_bytes ?ws) = (\<Sum>k\<leftarrow>[0..<n]. 8 + 8 * length (snd (grabScanDataHq E k))) \<and>
           read_blocks (file_bytes ?ws) =
             Some (map (\<lambda>k. map bytes_of_node (ascendScanData (snd (grabScanDataHq E k)))) [0..<n]) \<and>
           map length (the (read_blocks (file_bytes ?ws))) =
             map (\<lambda>k. length (snd (grabScanDataHq E k))) [0..<n]"
  proof (intro conjI)
    show "main_read_data_bin K E = Some ?out" by (rule run)
    show "exit_code ?out = - 1" by simp
    show "artifacts (trace ?out) = [(''data.bin'', ?ws)]" using art by simp
    show "?ws = concat (map (\<lambda>k. [Raw (bytes_of_size_t (length (snd (grabScanDataHq E k)))),
                                     Raw (bytes_of_nodes (ascendScanData (snd (grabScanDataHq E k))))])
                      [0..<n])"
      by (rule refl)
    show "file_bytes ?ws =
             concat (map (\<lambda>k. bytes_of_size_t (length (snd (grabScanDataHq E k))) @
                               bytes_of_nodes (ascendScanData (snd (grabScanDataHq E k)))) [0..<n])"
      by (simp add: bytes comp_def length_ascendScanData)
    show "length (file_bytes ?ws) = (\<Sum>k\<leftarrow>[0..<n]. 8 + 8 * length (snd (grabScanDataHq E k)))"
      by (rule len)
    show "read_blocks (file_bytes ?ws) =
             Some (map (\<lambda>k. map bytes_of_node (ascendScanData (snd (grabScanDataHq E k)))) [0..<n])"
      by (simp add: rd comp_def)
    show "map length (the (read_blocks (file_bytes ?ws))) =
             map (\<lambda>k. length (snd (grabScanDataHq E k))) [0..<n]"
      by (simp add: rd comp_def length_ascendScanData)
  qed
  then show ?thesis by blast
qed

text \<open>
  The run of \<open>env_ok\<close>: one batch of two nodes, then a timeout. The file is one block
  of \<open>8 + 2 * 8\<close> bytes.
\<close>

theorem capture_writes_whole_blocks_witness:
  "bootstrap_ok sdk_header env_ok \<and> first_failure sdk_header env_ok 1 \<and>
   list_all (\<lambda>k. length (snd (grabScanDataHq env_ok k)) \<le> 8192) [0..<1] \<and>
   (\<exists>out ws. main_read_data_bin sdk_header env_ok = Some out \<and> exit_code out = - 1 \<and>
      artifacts (trace out) = [(''data.bin'', ws)] \<and>
      ws = [Raw [2, 0, 0, 0, 0, 0, 0, 0],
            Raw [182, 0, 1, 0, 0, 2, 60, 1, 0, 64, 40, 0, 0, 0, 188, 0]] \<and>
      file_bytes ws =
        [2, 0, 0, 0, 0, 0, 0, 0, 182, 0, 1, 0, 0, 2, 60, 1, 0, 64, 40, 0, 0, 0, 188, 0] \<and>
      read_blocks (file_bytes ws) =
        Some [[[182, 0, 1, 0, 0, 2, 60, 1], [0, 64, 40, 0, 0, 0, 188, 0]]])"
proof -
  have small: "list_all (\<lambda>k. length (snd (grabScanDataHq env_ok k)) \<le> 8192) [0..<1]"
    by (simp add: env_ok_def)
  have g: "snd (grabScanDataHq env_ok 0) = [node_a, node_b]"
    by (simp add: env_ok_def)
  have l: "bytes_of_size_t (Suc (Suc 0)) = bytes_of_size_t 2"
    by (simp add: numeral_2_eq_2)
  from capture_writes_whole_blocks [OF bootstrap_ok_env_ok first_failure_env_ok small]
  obtain out ws where "main_read_data_bin sdk_header env_ok = Some out" "exit_code out = - 1"
    "artifacts (trace out) = [(''data.bin'', ws)]"
    "ws = concat (map (\<lambda>k. [Raw (bytes_of_size_t (length (snd (grabScanDataHq env_ok k)))),
                             Raw (bytes_of_nodes (ascendScanData (snd (grabScanDataHq env_ok k))))])
                    [0..<1])"
    "file_bytes ws =
       concat (map (\<lambda>k. bytes_of_size_t (length (snd (grabScanDataHq env_ok k))) @
                         bytes_of_nodes (ascendScanData (snd (grabScanDataHq env_ok k)))) [0..<1])"
    "read_blocks (file_bytes ws) =
       Some (map (\<lambda>k. map bytes_of_node (ascendScanData (snd (grabScanDataHq env_ok k)))) [0..<1])"
    by blast
  then have "main_read_data_bin sdk_header env_ok = Some out \<and> exit_code out = - 1 \<and>
      artifacts (trace out) = [(''data.bin'', ws)] \<and>
      ws = [Raw [2, 0, 0, 0, 0, 0, 0, 0],
            Raw [182, 0, 1, 0, 0, 2, 60, 1, 0, 64, 40, 0, 0, 0, 188, 0]] \<and>
      file_bytes ws =
        [2, 0, 0, 0, 0, 0, 0, 0, 182, 0, 1, 0, 0, 2, 60, 1, 0, 64, 40, 0, 0, 0, 188, 0] \<and>
      read_blocks (file_bytes ws) =
        Some [[[182, 0, 1, 0, 0, 2, 60, 1], [0, 64, 40, 0, 0, 0, 188, 0]]]"
    by (simp add: g l ascendScanData_example bytes_of_nodes_def bytes_of_size_t_2
        bytes_of_node_examples)
  then show ?thesis
    using bootstrap_ok_env_ok first_failure_env_ok small by blast
qed

subsection \<open>C6: a failing motor start\<close>

text \<open>
  C6, as amended. The result of the motor start is never inspected: a run in which
  \<^verbatim>\<open>setMotorSpeed\<close> returns \<open>r\<close> is the same run, with the same trace and the same exit
  status, whatever \<open>r\<close> is. After the bootstrap the sweep goes on from the motor start to
  the capability query, and the continuous capture goes on from the motor start to the
  scan start and enters its retrieval loop.
\<close>

theorem motor_start_result_is_ignored:
  "main_sample_data K (E\<lparr>setMotorSpeed := r\<rparr>) = main_sample_data K E \<and>
   main_read_data_bin K (E\<lparr>setMotorSpeed := r\<rparr>) = main_read_data_bin K E \<and>
   (bootstrap_ok K E \<longrightarrow>
      take 7 (driver_calls (trace (main_sample_data K E))) =
        driver_calls (boot_events E) @ [Call_setMotorSpeed, Call_getAllSupportedScanModes] \<and>
      main_read_data_bin K E = capture_loop K E 0 (boot_events E @ capture_start_events) \<and>
      driver_calls (boot_events E @ capture_start_events) =
        driver_calls (boot_events E) @ [Call_setMotorSpeed, Call_startScan False True])"
proof (intro conjI impI)
  show "main_sample_data K (E\<lparr>setMotorSpeed := r\<rparr>) = main_sample_data K E"
    by (rule main_sample_data_same_answers) simp_all
  show "main_read_data_bin K (E\<lparr>setMotorSpeed := r\<rparr>) = main_read_data_bin K E"
    by (rule main_read_data_bin_same_answers) simp_all
next
  assume b: "bootstrap_ok K E"
  show "take 7 (driver_calls (trace (main_sample_data K E))) =
        driver_calls (boot_events E) @ [Call_setMotorSpeed, Call_getAllSupportedScanModes]"
    using b
    by (simp add: main_sample_data_def main_prologue_ok driver_calls_append driver_calls_simps
        driver_calls_boot_events split: prod.splits)
  show "main_read_data_bin K E = capture_loop K E 0 (boot_events E @ capture_start_events)"
    using b by (rule main_read_data_bin_enters_loop)
  show "driver_calls (boot_events E @ capture_start_events) =
        driver_calls (boot_events E) @ [Call_setMotorSpeed, Call_startScan False True]"
    by (simp add: driver_calls_append driver_calls_simps capture_start_events_def)
qed

text \<open>
  The run of \<open>env_ok\<close> with a motor start that answers \<^verbatim>\<open>OPERATION_FAIL\<close>: it is the run of
  \<open>env_ok\<close>.
\<close>

theorem motor_start_result_is_ignored_witness:
  "bootstrap_ok sdk_header env_ok \<and>
   SL_IS_FAIL sdk_header (setMotorSpeed env_motor_start_fails) \<and>
   main_sample_data sdk_header env_motor_start_fails = main_sample_data sdk_header env_ok \<and>
   main_read_data_bin sdk_header env_motor_start_fails = main_read_data_bin sdk_header env_ok \<and>
   take 7 (driver_calls (trace (main_sample_data sdk_header env_ok))) =
     [Call_createSerialPortChannel ''/dev/ttyUSB0'' 115200, Call_createLidarDriver, Call_connect 1,
      Call_getDeviceInfo, Call_getHealth, Call_setMotorSpeed, Call_getAllSupportedScanModes]"
proof -
  have f: "SL_IS_FAIL sdk_header (setMotorSpeed env_motor_start_fails)"
    by (simp add: env_motor_start_fails_def sdk_header_def)
  have b: "driver_calls (boot_events env_ok) =
      [Call_createSerialPortChannel ''/dev/ttyUSB0'' 115200, Call_createLidarDriver, Call_connect 1,
       Call_getDeviceInfo, Call_getHealth]"
    by (simp add: driver_calls_boot_events) (simp add: env_ok_def)
  show ?thesis
    using motor_start_result_is_ignored [where K = sdk_header and E = env_ok and r = "0x80008001"] bootstrap_ok_env_ok f
    unfolding env_motor_start_fails_def [symmetric] b
    by simp
qed

text \<open>
  C6 as stated fails: the motor start answers \<^verbatim>\<open>OPERATION_FAIL\<close>, nothing is reported, the
  sweep starts its scans and retrieves samples and returns \<open>0\<close>, and the continuous
  capture starts its scan and retrieves samples.
\<close>

theorem motor_start_failure_counterexample:
  "SL_IS_FAIL sdk_header (setMotorSpeed env_motor_start_fails) \<and>
   exit_code (main_sample_data sdk_header env_motor_start_fails) = 0 \<and>
   reports (trace (main_sample_data sdk_header env_motor_start_fails)) = [] \<and>
   driver_calls (trace (main_sample_data sdk_header env_motor_start_fails)) =
     [Call_createSerialPortChannel ''/dev/ttyUSB0'' 115200, Call_createLidarDriver, Call_connect 1,
      Call_getDeviceInfo, Call_getHealth, Call_setMotorSpeed, Call_getAllSupportedScanModes,
      Call_startScanExpress False 0 0, Call_grabScanDataHq 8192, Call_ascendScanData 2,
      Call_startScanExpress False 2 0, Call_grabScanDataHq 8192, Call_stop] \<and>
   map_option (driver_calls \<circ> trace) (main_read_data_bin sdk_header env_motor_start_fails) =
     Some [Call_createSerialPortChannel ''/dev/ttyUSB0'' 115200, Call_createLidarDriver, Call_connect 1,
           Call_getDeviceInfo, Call_getHealth, Call_setMotorSpeed, Call_startScan False True,
           Call_grabScanDataHq 8192, Call_ascendScanData 2, Call_grabScanDataHq 8192, Call_stop]"
proof -
  have f: "SL_IS_FAIL sdk_header (setMotorSpeed env_motor_start_fails)"
    by (simp add: env_motor_start_fails_def sdk_header_def)
  have s: "main_sample_data sdk_header env_motor_start_fails = main_sample_data sdk_header env_ok"
    unfolding env_motor_start_fails_def by (rule main_sample_data_same_answers) simp_all
  have c: "main_read_data_bin sdk_header env_motor_start_fails = main_read_data_bin sdk_header env_ok"
    unfolding env_motor_start_fails_def by (rule main_read_data_bin_same_answers) simp_all
  show ?thesis
    unfolding s c using f env_ok_sample_data_calls env_ok_read_data_bin_calls by simp
qed

subsection \<open>C7: the exit codes of the fatal paths\<close>

text \<open>
  C7, as amended. The exit status of a run of the sweep is \<open>-2\<close> when an allocation fails,
  \<open>-1\<close> for every other fatal condition of the bootstrap, the failure to create the
  channel included, and \<open>0\<close> when there is none: two negative codes, one for allocation
  failures and one shared by channel-creation and operational failures.
\<close>

theorem exit_codes_of_fatal_paths:
  "exit_code (main_sample_data K E) = exit_code_of (failure_of K E) \<and>
   exit_code_of (Some Allocation) = - 2 \<and>
   exit_code_of (Some Channel_creation) = - 1 \<and>
   exit_code_of (Some Operational) = - 1 \<and>
   exit_code_of None = 0"
  by (simp add: exit_code_main_sample_data)

text \<open>A run in which the channel factory returns a null pointer.\<close>

theorem exit_codes_of_fatal_paths_witness:
  "failure_of sdk_header env_no_memory = Some Allocation \<and>
   exit_code (main_sample_data sdk_header env_no_memory) = - 2"
proof -
  have "failure_of sdk_header env_no_memory = Some Allocation"
    by (simp add: failure_of_def Result_bool_def env_no_memory_def env_ok_def sdk_header_def)
  then show ?thesis
    using exit_codes_of_fatal_paths [of sdk_header env_no_memory] by simp
qed

text \<open>
  C7 as stated fails: a run that cannot create the channel and a run that cannot connect
  belong to two different classes and end with the same status \<open>-1\<close>.
\<close>

theorem exit_codes_counterexample:
  "failure_of sdk_header env_no_channel = Some Channel_creation \<and>
   failure_of sdk_header env_no_connection = Some Operational \<and>
   reports (trace (main_sample_data sdk_header env_no_channel)) =
     [Println Stderr ''Failed to create channel: {}'' [Str ''OPERATION_FAIL'']] \<and>
   reports (trace (main_sample_data sdk_header env_no_connection)) =
     [Println Stderr ''Failed to connect channel to driver: {}'' [Str ''OPERATION_TIMEOUT'']] \<and>
   exit_code (main_sample_data sdk_header env_no_channel) = - 1 \<and>
   exit_code (main_sample_data sdk_header env_no_connection) = - 1 \<and>
   exit_code (main_sample_data sdk_header env_no_channel) =
     exit_code (main_sample_data sdk_header env_no_connection)"
  by (simp add: failure_of_def Result_bool_def main_sample_data_def main_prologue_def
      makeChannel_def makeDriver_def resultErrorString_def reports_simps Let_def
      env_no_channel_def env_no_connection_def env_ok_def sdk_header_def)

subsection \<open>C8: the conversion to degrees and millimetres\<close>

text \<open>
  C8, as amended. In the table of a mode, the row of a node holds the raw angle times 90
  divided by 16384, exactly, and the raw distance divided by 4 when the raw distance is
  at most \<open>2\<^sup>2\<^sup>4\<close>; a larger raw distance is first rounded to a significand of 24 bits, as
  the conversion to single precision does. The binary file of the continuous capture
  holds the raw values: the bytes of a record are the raw angle, the raw distance, the
  quality and the flag.
\<close>

theorem export_converts_units:
  assumes "bootstrap_ok K E"
  shows "(\<not> SL_IS_FAIL K (fst (getAllSupportedScanModes E)) \<longrightarrow>
            (\<forall>k<length (snd (getAllSupportedScanModes E)).
               SL_IS_OK K (fst (grabScanDataHq E k)) \<longrightarrow>
                 snd (artifacts (trace (main_sample_data K E)) ! k) =
                   Formatted ''theta,dist,q,flag\<newline>'' [] #
                   map (\<lambda>nd. Formatted ''{},{},{},{}\<newline>''
                          [Flt (of_nat (unat (angle_z_q14 nd)) * 90 / 16384),
                           Flt (if unat (dist_mm_q2 nd) \<le> 2 ^ 24 then of_nat (unat (dist_mm_q2 nd)) / 4
                                else of_nat (float_of_nat (unat (dist_mm_q2 nd))) / 4),
                           Num (uint (drop_bit (SL_LIDAR_RESP_MEASUREMENT_QUALITY_SHIFT K) (quality nd))),
                           Str (if flag nd AND SL_LIDAR_RESP_HQ_FLAG_SYNCBIT K \<noteq> 0 then ''S'' else [])])
                     (ascendScanData (snd (grabScanDataHq E k))))) \<and>
         (first_failure K E n \<longrightarrow>
            (\<exists>out. main_read_data_bin K E = Some out \<and>
               artifacts (trace out) =
                 [(''data.bin'',
                   concat (map (\<lambda>k. [Raw (bytes_of_size_t (length (snd (grabScanDataHq E k)))),
                                      Raw (concat (map bytes_of_node
                                             (ascendScanData (snd (grabScanDataHq E k)))))])
                             [0..<n]))])) \<and>
         le_nat (take 2 (bytes_of_node nd)) = unat (angle_z_q14 nd) \<and>
         le_nat (take 4 (drop 2 (bytes_of_node nd))) = unat (dist_mm_q2 nd) \<and>
         drop 6 (bytes_of_node nd) = [quality nd, flag nd]"
proof (intro conjI impI allI)
  fix k
  assume "\<not> SL_IS_FAIL K (fst (getAllSupportedScanModes E))"
    and "k < length (snd (getAllSupportedScanModes E))"
    and "SL_IS_OK K (fst (grabScanDataHq E k))"
  then have "snd (artifacts (trace (main_sample_data K E)) ! k) =
               Formatted ''theta,dist,q,flag\<newline>'' [] #
               map (csv_row K) (ascendScanData (snd (grabScanDataHq E k)))"
    by (simp add: mode_artifact_nth [OF assms] mode_artifact_def)
  then show "snd (artifacts (trace (main_sample_data K E)) ! k) =
                   Formatted ''theta,dist,q,flag\<newline>'' [] #
                   map (\<lambda>nd. Formatted ''{},{},{},{}\<newline>''
                          [Flt (of_nat (unat (angle_z_q14 nd)) * 90 / 16384),
                           Flt (if unat (dist_mm_q2 nd) \<le> 2 ^ 24 then of_nat (unat (dist_mm_q2 nd)) / 4
                                else of_nat (float_of_nat (unat (dist_mm_q2 nd))) / 4),
                           Num (uint (drop_bit (SL_LIDAR_RESP_MEASUREMENT_QUALITY_SHIFT K) (quality nd))),
                           Str (if flag nd AND SL_LIDAR_RESP_HQ_FLAG_SYNCBIT K \<noteq> 0 then ''S'' else [])])
                     (ascendScanData (snd (grabScanDataHq E k)))"
    by (simp only: csv_row_conversion [abs_def])
next
  assume "first_failure K E n"
  with assms show "\<exists>out. main_read_data_bin K E = Some out \<and>
               artifacts (trace out) =
                 [(''data.bin'',
                   concat (map (\<lambda>k. [Raw (bytes_of_size_t (length (snd (grabScanDataHq E k)))),
                                      Raw (concat (map bytes_of_node
                                             (ascendScanData (snd (grabScanDataHq E k)))))])
                             [0..<n]))]"
    using artifacts_main_read_data_bin [of K E n] by (simp only: bytes_of_nodes_def)
qed (rule raw_fields_of_bytes_of_node)+

text \<open>
  The run of \<open>env_ok\<close>, the node with raw angle \<open>16384\<close> and raw distance \<open>40\<close>: its row
  holds \<open>90\<close> and \<open>10\<close>, its record in the binary file the bytes of \<open>16384\<close> and of \<open>40\<close>.
\<close>

theorem export_converts_units_witness:
  "bootstrap_ok sdk_header env_ok \<and>
   \<not> SL_IS_FAIL sdk_header (fst (getAllSupportedScanModes env_ok)) \<and>
   0 < length (snd (getAllSupportedScanModes env_ok)) \<and>
   SL_IS_OK sdk_header (fst (grabScanDataHq env_ok 0)) \<and>
   first_failure sdk_header env_ok 1 \<and>
   angle_z_q14 node_a = 16384 \<and> dist_mm_q2 node_a = 40 \<and>
   snd (artifacts (trace (main_sample_data sdk_header env_ok)) ! 0) ! 2 =
     Formatted ''{},{},{},{}\<newline>'' [Flt 90, Flt 10, Num 47, Str []] \<and>
   (\<exists>out. main_read_data_bin sdk_header env_ok = Some out \<and>
      artifacts (trace out) =
        [(''data.bin'',
          [Raw [2, 0, 0, 0, 0, 0, 0, 0],
           Raw [182, 0, 1, 0, 0, 2, 60, 1, 0, 64, 40, 0, 0, 0, 188, 0]])]) \<and>
   le_nat (take 2 (bytes_of_node node_a)) = 16384 \<and>
   le_nat (take 4 (drop 2 (bytes_of_node node_a))) = 40"
proof -
  have k: "0 < length (snd (getAllSupportedScanModes env_ok))"
    by (simp add: env_ok_modes)
  have g: "SL_IS_OK sdk_header (fst (grabScanDataHq env_ok 0))"
    by (simp add: env_ok_def sdk_header_def)
  have n: "snd (grabScanDataHq env_ok 0) = [node_a, node_b]"
    by (simp add: env_ok_def)
  have f: "angle_z_q14 node_a = 16384" "dist_mm_q2 node_a = 40" "quality node_a = 188" "flag node_a = 0"
    "angle_z_q14 node_b = 182" "dist_mm_q2 node_b = 33554433" "quality node_b = 60" "flag node_b = 1"
    by (simp_all add: node_a_def node_b_def)
  have s: "SL_LIDAR_RESP_MEASUREMENT_QUALITY_SHIFT sdk_header = 2"
    "SL_LIDAR_RESP_HQ_FLAG_SYNCBIT sdk_header = 1"
    by (simp_all add: sdk_header_def)
  note t = export_converts_units [OF bootstrap_ok_env_ok, of 1 node_a]
  from t env_ok_modes_ok k g have t1:
    "snd (artifacts (trace (main_sample_data sdk_header env_ok)) ! 0) ! 2 =
       Formatted ''{},{},{},{}\<newline>'' [Flt 90, Flt 10, Num 47, Str []]"
    by (simp add: n ascendScanData_example f s)
  from t first_failure_env_ok have t3:
    "\<exists>out. main_read_data_bin sdk_header env_ok = Some out \<and>
       artifacts (trace out) =
         [(''data.bin'',
           concat (map (\<lambda>k. [Raw (bytes_of_size_t (length (snd (grabScanDataHq env_ok k)))),
                              Raw (concat (map bytes_of_node
                                     (ascendScanData (snd (grabScanDataHq env_ok k)))))])
                     [0..<1]))]"
    by blast
  from t have t4: "le_nat (take 2 (bytes_of_node node_a)) = 16384"
    "le_nat (take 4 (drop 2 (bytes_of_node node_a))) = 40"
    by (simp_all add: f)
  show ?thesis
    using bootstrap_ok_env_ok env_ok_modes_ok k g first_failure_env_ok t1 t3 t4
    unfolding env_ok_data_bin [unfolded bytes_of_nodes_def]
    by (simp add: f)
qed

text \<open>
  C8 as stated fails for a raw distance that single precision cannot hold: in the run of
  \<open>env_ok\<close> the node with raw distance \<open>33554433\<close> is written with the distance \<open>8388608\<close>,
  which is not \<open>33554433 / 4\<close>.
\<close>

theorem export_distance_counterexample:
  "bootstrap_ok sdk_header env_ok \<and>
   \<not> SL_IS_FAIL sdk_header (fst (getAllSupportedScanModes env_ok)) \<and>
   SL_IS_OK sdk_header (fst (grabScanDataHq env_ok 0)) \<and>
   snd (grabScanDataHq env_ok 0) ! 1 = node_b \<and>
   unat (dist_mm_q2 node_b) = 33554433 \<and>
   snd (artifacts (trace (main_sample_data sdk_header env_ok)) ! 0) ! 1 =
     Formatted ''{},{},{},{}\<newline>'' [Flt (4095 / 4096), Flt 8388608, Num 15, Str ''S''] \<and>
   (8388608 :: rat) \<noteq> of_nat (unat (dist_mm_q2 node_b)) / 4"
proof -
  have g: "SL_IS_OK sdk_header (fst (grabScanDataHq env_ok 0))"
    by (simp add: env_ok_def sdk_header_def)
  have n: "snd (grabScanDataHq env_ok 0) = [node_a, node_b]"
    by (simp add: env_ok_def)
  have d: "unat (dist_mm_q2 node_b) = 33554433"
    by (simp add: node_b_def)
  have a: "artifacts (trace (main_sample_data sdk_header env_ok)) ! 0 =
           mode_artifact sdk_header env_ok 0 mode_standard"
    using mode_artifact_nth [OF bootstrap_ok_env_ok env_ok_modes_ok, of 0]
    by (simp add: env_ok_modes)
  show ?thesis
    using bootstrap_ok_env_ok env_ok_modes_ok g
    by (simp add: a mode_artifact_def n d ascendScanData_example csv_row_examples)
qed

subsection \<open>C9: the result of the scan start\<close>

text \<open>
  C9. The result code of \<^verbatim>\<open>startScanExpress\<close> is never inspected: the run of the sweep is the
  same whatever codes the scan starts return. In every turn of the loop the scan start
  is followed by the report of what the call left in \<^verbatim>\<open>actualMode\<close>, the line with the
  size of the buffer, and the retrieval; over a run that reaches the sweep, the scan
  starts, reports of the negotiated mode and retrievals are these three events for
  each mode in turn.
\<close>

theorem scan_start_result_is_ignored:
  "main_sample_data K (E\<lparr>startScanExpress := (\<lambda>k. (r k, snd (startScanExpress E k)))\<rparr>) =
     main_sample_data K E \<and>
   take 4 (drop 3 (sweep_body K E w k mode)) =
     [Call_startScanExpress False (mode_id mode) 0,
      Println Stdout ''    Working in mode {} {}''
        [Num (uint (mode_id (snd (startScanExpress E k)))), Str (scan_mode (snd (startScanExpress E k)))],
      Println Stdout ''    Got {} points'' [Num 8192],
      Call_grabScanDataHq 8192] \<and>
   (bootstrap_ok K E \<and> \<not> SL_IS_FAIL K (fst (getAllSupportedScanModes E)) \<longrightarrow>
      filter is_sweep_step (trace (main_sample_data K E)) =
        concat (map (\<lambda>(k, mode). sweep_steps E k mode) (enumerate 0 (snd (getAllSupportedScanModes E)))))"
proof (intro conjI impI)
  show "main_sample_data K (E\<lparr>startScanExpress := (\<lambda>k. (r k, snd (startScanExpress E k)))\<rparr>) =
     main_sample_data K E"
    by (rule main_sample_data_same_answers) simp_all
  show "take 4 (drop 3 (sweep_body K E w k mode)) =
     [Call_startScanExpress False (mode_id mode) 0,
      Println Stdout ''    Working in mode {} {}''
        [Num (uint (mode_id (snd (startScanExpress E k)))), Str (scan_mode (snd (startScanExpress E k)))],
      Println Stdout ''    Got {} points'' [Num 8192],
      Call_grabScanDataHq 8192]"
    by (simp add: sweep_body_def Let_def)
next
  assume "bootstrap_ok K E \<and> \<not> SL_IS_FAIL K (fst (getAllSupportedScanModes E))"
  then have b: "bootstrap_ok K E" and m: "\<not> SL_IS_FAIL K (fst (getAllSupportedScanModes E))"
    by simp_all
  show "filter is_sweep_step (trace (main_sample_data K E)) =
        concat (map (\<lambda>(k, mode). sweep_steps E k mode) (enumerate 0 (snd (getAllSupportedScanModes E))))"
    by (simp add: main_sample_data_sweeps [OF b m] sweep_steps_boot_events sweep_steps_sweep)
qed

text \<open>
  The run of \<open>env_ok\<close> compared with the run in which every scan start answers
  \<^verbatim>\<open>OPERATION_FAIL\<close> and leaves the same \<^verbatim>\<open>actualMode\<close>.
\<close>

theorem scan_start_result_is_ignored_witness:
  "bootstrap_ok sdk_header env_ok \<and>
   \<not> SL_IS_FAIL sdk_header (fst (getAllSupportedScanModes env_ok)) \<and>
   main_sample_data sdk_header
       (env_ok\<lparr>startScanExpress := (\<lambda>k. (0x80008001, snd (startScanExpress env_ok k)))\<rparr>) =
     main_sample_data sdk_header env_ok \<and>
   filter is_sweep_step (trace (main_sample_data sdk_header env_ok)) =
     [Call_startScanExpress False 0 0,
      Println Stdout ''    Working in mode {} {}'' [Num 0, Str ''Standard''],
      Call_grabScanDataHq 8192,
      Call_startScanExpress False 2 0,
      Println Stdout ''    Working in mode {} {}'' [Num 2, Str ''Boost''],
      Call_grabScanDataHq 8192]"
proof -
  have s: "concat (map (\<lambda>(k, mode). sweep_steps env_ok k mode)
             (enumerate 0 (snd (getAllSupportedScanModes env_ok)))) =
     [Call_startScanExpress False 0 0,
      Println Stdout ''    Working in mode {} {}'' [Num 0, Str ''Standard''],
      Call_grabScanDataHq 8192,
      Call_startScanExpress False 2 0,
      Println Stdout ''    Working in mode {} {}'' [Num 2, Str ''Boost''],
      Call_grabScanDataHq 8192]"
    by (simp add: sweep_steps_def env_ok_def mode_standard_def mode_boost_def)
  show ?thesis
    using scan_start_result_is_ignored [where K = sdk_header and E = env_ok and r = "\<lambda>k. 0x80008001"]
      bootstrap_ok_env_ok env_ok_modes_ok
    unfolding s by simp
qed

subsection \<open>C10: every mode gets its file\<close>

text \<open>
  C10. In a run that reaches the sweep there are as many files as modes. The name of the
  file of the \<open>k\<close>-th mode is the identifier of the mode in decimal digits (a decimal
  numeral in its shortest form, whose value is the identifier), an underscore, the name
  of the mode, and \<^verbatim>\<open>_data.csv\<close>. The first write to the file is the header
  \<^verbatim>\<open>theta,dist,q,flag\<close>; when the retrieval of the mode fails the header is all the file
  holds. The file is opened and the header written before the scan start of the mode:
  they are, with the line printed for the mode, the events of the turn that precede
  the scan start.
\<close>

theorem every_mode_gets_its_file:
  assumes "bootstrap_ok K E" and "\<not> SL_IS_FAIL K (fst (getAllSupportedScanModes E))"
    and "k < length (snd (getAllSupportedScanModes E))"
  shows "length (artifacts (trace (main_sample_data K E))) = length (snd (getAllSupportedScanModes E)) \<and>
         fst (artifacts (trace (main_sample_data K E)) ! k) =
           dec (unat (mode_id (snd (getAllSupportedScanModes E) ! k))) @ ''_'' @
           scan_mode (snd (getAllSupportedScanModes E) ! k) @ ''_data.csv'' \<and>
         is_decimal_numeral (dec (unat (mode_id (snd (getAllSupportedScanModes E) ! k)))) \<and>
         decimal_value (dec (unat (mode_id (snd (getAllSupportedScanModes E) ! k)))) =
           unat (mode_id (snd (getAllSupportedScanModes E) ! k)) \<and>
         hd (snd (artifacts (trace (main_sample_data K E)) ! k)) =
           Formatted ''theta,dist,q,flag\<newline>'' [] \<and>
         (\<not> SL_IS_OK K (fst (grabScanDataHq E k)) \<longrightarrow>
            snd (artifacts (trace (main_sample_data K E)) ! k) = [Formatted ''theta,dist,q,flag\<newline>'' []]) \<and>
         takeWhile (\<lambda>ev. \<not> is_scan_start ev)
             (sweep_body K E w k (snd (getAllSupportedScanModes E) ! k)) =
           [Println Stdout ''{} {:{}s} answer type: {:02x} us/sample: {:f} max dist: {:f} m''
              [Num (uint (mode_id (snd (getAllSupportedScanModes E) ! k))),
               Str (scan_mode (snd (getAllSupportedScanModes E) ! k)), Num (int w),
               Num (uint (ans_type (snd (getAllSupportedScanModes E) ! k))),
               Flt (us_per_sample (snd (getAllSupportedScanModes E) ! k)),
               Flt (max_distance (snd (getAllSupportedScanModes E) ! k))],
            Open_file (dec (unat (mode_id (snd (getAllSupportedScanModes E) ! k))) @ ''_'' @
                       scan_mode (snd (getAllSupportedScanModes E) ! k) @ ''_data.csv''),
            Write_file (Formatted ''theta,dist,q,flag\<newline>'' [])]"
proof -
  let ?mode = "snd (getAllSupportedScanModes E) ! k"
  have name: "csv_filename ?mode =
      dec (unat (mode_id ?mode)) @ ''_'' @ scan_mode ?mode @ ''_data.csv''"
    by (simp only: csv_filename_def)
  have a: "artifacts (trace (main_sample_data K E)) ! k = mode_artifact K E k ?mode"
    using assms by (rule mode_artifact_nth)
  show ?thesis
    unfolding a mode_artifact_def sweep_body_before_scan_start name
    by (simp add: length_artifacts_main_sample_data [OF assms(1,2)] is_decimal_numeral_dec
        decimal_value_dec del: dec.simps)
qed

text \<open>
  The run of \<open>env_ok\<close>. The first mode (identifier \<open>0\<close>, name \<^verbatim>\<open>Standard\<close>) gets the file
  \<^verbatim>\<open>0_Standard_data.csv\<close>, which starts with the header. The retrieval of the second mode
  (identifier \<open>2\<close>, name \<^verbatim>\<open>Boost\<close>) times out: the file \<^verbatim>\<open>2_Boost_data.csv\<close> holds the header
  only.
\<close>

theorem every_mode_gets_its_file_witness:
  "bootstrap_ok sdk_header env_ok \<and>
   \<not> SL_IS_FAIL sdk_header (fst (getAllSupportedScanModes env_ok)) \<and>
   0 < length (snd (getAllSupportedScanModes env_ok)) \<and>
   1 < length (snd (getAllSupportedScanModes env_ok)) \<and>
   \<not> SL_IS_OK sdk_header (fst (grabScanDataHq env_ok 1)) \<and>
   length (artifacts (trace (main_sample_data sdk_header env_ok))) = 2 \<and>
   fst (artifacts (trace (main_sample_data sdk_header env_ok)) ! 0) = ''0_Standard_data.csv'' \<and>
   hd (snd (artifacts (trace (main_sample_data sdk_header env_ok)) ! 0)) =
     Formatted ''theta,dist,q,flag\<newline>'' [] \<and>
   artifacts (trace (main_sample_data sdk_header env_ok)) ! 1 =
     (''2_Boost_data.csv'', [Formatted ''theta,dist,q,flag\<newline>'' []]) \<and>
   decimal_value ''2'' = 2"
proof -
  have k0: "0 < length (snd (getAllSupportedScanModes env_ok))"
    and k1: "1 < length (snd (getAllSupportedScanModes env_ok))"
    by (simp_all add: env_ok_modes)
  have g: "\<not> SL_IS_OK sdk_header (fst (grabScanDataHq env_ok 1))"
    by (simp add: env_ok_def sdk_header_def)
  have m: "snd (getAllSupportedScanModes env_ok) ! 0 = mode_standard"
    "snd (getAllSupportedScanModes env_ok) ! 1 = mode_boost"
    by (simp_all add: env_ok_modes)
  have f: "mode_id mode_standard = 0" "scan_mode mode_standard = ''Standard''"
    "mode_id mode_boost = 2" "scan_mode mode_boost = ''Boost''"
    by (simp_all add: mode_standard_def mode_boost_def)
  have d: "dec 0 = ''0''" "dec 2 = ''2''"
    by simp_all
  note t0 = every_mode_gets_its_file [OF bootstrap_ok_env_ok env_ok_modes_ok k0, of 0]
  note t1 = every_mode_gets_its_file [OF bootstrap_ok_env_ok env_ok_modes_ok k1, of 0]
  from t0 have a0:
    "fst (artifacts (trace (main_sample_data sdk_header env_ok)) ! 0) = ''0_Standard_data.csv''"
    "hd (snd (artifacts (trace (main_sample_data sdk_header env_ok)) ! 0)) =
       Formatted ''theta,dist,q,flag\<newline>'' []"
    by (simp_all add: m f d)
  from t1 g have a1:
    "length (artifacts (trace (main_sample_data sdk_header env_ok))) = 2"
    "artifacts (trace (main_sample_data sdk_header env_ok)) ! 1 =
       (''2_Boost_data.csv'', [Formatted ''theta,dist,q,flag\<newline>'' []])"
    "decimal_value ''2'' = 2"
    by (simp_all add: m f d env_ok_modes prod_eq_iff)
  show ?thesis
    using bootstrap_ok_env_ok env_ok_modes_ok k0 k1 g a0 a1 by simp
qed

end
